theory Spec2Isabelle
  imports Main
begin

section \<open>Python strings\<close>

text \<open>
  A Python \<open>str\<close> is modelled as a \<open>string\<close>: one \<open>char\<close> per code point (the
  program's own literals are ASCII; a code point below 256 is the \<open>char\<close> of that
  number). \<open>str(n)\<close> of an integer is its decimal rendering; \<open>digit_char\<close> is
  only applied to the digits 0 to 9.
\<close>

definition digit_char :: "nat \<Rightarrow> char" where
  "digit_char d = ''0123456789'' ! d"

function str_nat :: "nat \<Rightarrow> string" where
  "str_nat n = (if n < 10 then [digit_char n] else str_nat (n div 10) @ [digit_char (n mod 10)])"
  by pat_completeness auto

termination
  by (relation "measure id") auto

declare str_nat.simps [simp del]

definition str_int :: "int \<Rightarrow> string" where
  "str_int i = (if i < 0 then CHR ''-'' # str_nat (nat (- i)) else str_nat (nat i))"

text \<open>
  \<open>sub in s\<close> and \<open>s.find(sub)\<close>: the index of the first occurrence of \<open>sub\<close> in
  \<open>s\<close>, scanning from the left.
\<close>

definition starts_with :: "string \<Rightarrow> string \<Rightarrow> bool" where
  "starts_with sub s = (take (length sub) s = sub)"

fun str_find :: "string \<Rightarrow> string \<Rightarrow> nat option" where
  "str_find sub [] = (if sub = [] then Some 0 else None)"
| "str_find sub (c # cs) =
     (if starts_with sub (c # cs) then Some 0 else map_option Suc (str_find sub cs))"

definition str_contains :: "string \<Rightarrow> string \<Rightarrow> bool" where
  "str_contains sub s = (str_find sub s \<noteq> None)"

text \<open>
  \<open>s.split(sep, 1)\<close>: at most one split, at the first occurrence of \<open>sep\<close>.
  \<open>s.split(sep)\<close>: a split at every occurrence, found left to right without overlap.
  Python raises \<open>ValueError\<close> for an empty separator; the program calls both only with
  the literal marker, and the model returns the unsplit string there.
\<close>

definition str_split_once :: "string \<Rightarrow> string \<Rightarrow> string list" where
  "str_split_once sep s =
     (case str_find sep s of
        None \<Rightarrow> [s]
      | Some i \<Rightarrow> if sep = [] then [s] else [take i s, drop (i + length sep) s])"

lemma str_find_bound: "str_find sub s = Some i \<Longrightarrow> i + length sub \<le> length s"
proof (induction s arbitrary: i)
  case Nil
  then show ?case by (simp split: if_splits)
next
  case (Cons c cs)
  show ?case
  proof (cases "starts_with sub (c # cs)")
    case True
    then have "length (take (length sub) (c # cs)) = length sub"
      by (simp only: starts_with_def)
    then have "length sub \<le> length (c # cs)"
      by (metis length_take min.cobounded1)
    with True Cons.prems show ?thesis by simp
  next
    case False
    with Cons.prems obtain j where "str_find sub cs = Some j" "i = Suc j"
      by auto
    with Cons.IH show ?thesis by fastforce
  qed
qed

function str_split :: "string \<Rightarrow> string \<Rightarrow> string list" where
  "str_split sep s =
     (case str_find sep s of
        None \<Rightarrow> [s]
      | Some i \<Rightarrow> if sep = [] then [s] else take i s # str_split sep (drop (i + length sep) s))"
  by pat_completeness auto

termination
proof (relation "measure (\<lambda>(sep, s). length s)")
  show "wf (measure (\<lambda>(sep, s). length s))" by simp
next
  fix sep s :: string and i
  assume f: "str_find sep s = Some i" and ne: "sep \<noteq> []"
  from ne have "0 < length sep" by simp
  with str_find_bound [OF f] have "length s - (i + length sep) < length s"
    by arith
  then show "((sep, drop (i + length sep) s), (sep, s)) \<in> measure (\<lambda>(sep, s). length s)"
    by simp
qed

declare str_split.simps [simp del]

text \<open>
  \<open>s.strip()\<close> removes leading and trailing whitespace: the code points for which
  \<open>str.isspace\<close> holds, which below 256 are 9 to 13, 28 to 32, 133 and 160.
\<close>

definition isspace :: "char \<Rightarrow> bool" where
  "isspace c = (let n = (of_char c :: nat) in (9 \<le> n \<and> n \<le> 13) \<or> (28 \<le> n \<and> n \<le> 32) \<or> n = 133 \<or> n = 160)"

definition str_lstrip :: "string \<Rightarrow> string" where
  "str_lstrip s = dropWhile isspace s"

definition str_rstrip :: "string \<Rightarrow> string" where
  "str_rstrip s = rev (dropWhile isspace (rev s))"

definition str_strip :: "string \<Rightarrow> string" where
  "str_strip s = str_rstrip (str_lstrip s)"

section \<open>The retrying client (travel\_assistant.py, query\_llama)\<close>

text \<open>
  What one \<open>requests.post\<close> to the model endpoint leads to inside the \<open>try\<close> block:
  a \<open>RequestException\<close> (connection error, timeout, or the \<open>HTTPError\<close> of
  \<open>raise_for_status\<close>), a parsed body with or without the \<open>response\<close> key, or an
  exception of another class, which the \<open>except\<close> clause does not catch.
\<close>

datatype reply =
    RequestException string
  | Json "string option"
  | OtherException string

datatype exn = IndexError | Raised string

fun str_exn :: "exn \<Rightarrow> string" where
  "str_exn IndexError = ''list index out of range''"
| "str_exn (Raised m) = m"

text \<open>
  The effects of a run, in the order in which they happen: a request posted with a
  prompt, a blocking sleep of so many seconds, a \<open>requests.get\<close> of a URL, a task
  executed by the crew (named by its description), a write to a
  key of \<open>st.session_state.results\<close>, \<open>st.error\<close>, \<open>status.update\<close> with its
  state, \<open>st.rerun\<close>. Log lines and \<open>st.write\<close> progress messages are left out.
\<close>

datatype event =
    Post string
  | Sleep nat
  | Get string
  | Execute string
  | Assign string string
  | StError string
  | StatusUpdate string
  | Rerun

fun is_Post :: "event \<Rightarrow> bool" where
  "is_Post (Post p) = True"
| "is_Post e = False"

definition posts :: "event list \<Rightarrow> nat" where
  "posts tr = length (filter is_Post tr)"

fun sleeps :: "event list \<Rightarrow> nat list" where
  "sleeps [] = []"
| "sleeps (Sleep n # es) = n # sleeps es"
| "sleeps (e # es) = sleeps es"

text \<open>
  The endpoint is a stub: its reply to a prompt may depend on how many requests were
  posted before (the per-attempt timeout is part of what it stands for).
\<close>

type_synonym endpoint = "string \<Rightarrow> nat \<Rightarrow> reply"

definition wait_time :: "nat \<Rightarrow> nat" where
  "wait_time attempt = 2 ^ attempt"

text \<open>
  The body of \<open>for attempt in range(max_retries)\<close>, over the attempt numbers still to
  come; the empty list is the fall-through after the loop. The \<open>timeout\<close> argument is
  only handed on to \<open>requests.post\<close> and has no parameter here. A reply is looked up
  by the number of requests posted so far, and the request is recorded as posted
  whatever the reply.
\<close>

fun attempts :: "endpoint \<Rightarrow> string \<Rightarrow> int \<Rightarrow> nat list \<Rightarrow> event list \<Rightarrow> (exn + string) \<times> event list" where
  "attempts ep prompt max_retries [] tr = (Inr ''Error: LLM request failed'', tr)"
| "attempts ep prompt max_retries (attempt # rest) tr =
     (case ep prompt (posts tr) of
        Json (Some text) \<Rightarrow> (Inr text, tr @ [Post prompt])
      | Json None \<Rightarrow> (Inr ''Error: Invalid response format from LLM'', tr @ [Post prompt])
      | OtherException m \<Rightarrow> (Inl (Raised m), tr @ [Post prompt])
      | RequestException m \<Rightarrow>
          if int attempt < max_retries - 1
          then attempts ep prompt max_retries rest (tr @ [Post prompt, Sleep (wait_time attempt)])
          else (Inr (''Error: LLM request failed after '' @ str_int max_retries @ '' attempts''),
                tr @ [Post prompt]))"

definition query_llama :: "endpoint \<Rightarrow> string \<Rightarrow> int \<Rightarrow> event list \<Rightarrow> (exn + string) \<times> event list" where
  "query_llama ep prompt max_retries tr = attempts ep prompt max_retries [0..<nat max_retries] tr"

section \<open>The trip request and the prompts (travel\_assistant.py)\<close>

text \<open>
  \<open>st.session_state.user_input\<close>, as the sidebar builds it: the dates are already
  strings, \<open>duration\<close> and \<open>num_people\<close> are integers, which an f-string renders
  with \<open>str\<close>.
\<close>

record user_input =
  start_date :: string
  end_date :: string
  duration :: int
  from_location :: string
  destination :: string
  num_people :: int
  traveler_type :: string
  budget_level :: string
  special_requests :: string

definition planner_prompt :: "user_input \<Rightarrow> string" where
  "planner_prompt ui =
     ''\<newline>'' @
     ''    You are a Senior Travel Planner. Create a '' @ str_int (duration ui) @
     ''-day itinerary for a trip from '' @ start_date ui @ '' to '' @ end_date ui @ ''.\<newline>'' @
     ''    Destination: '' @ destination ui @ ''\<newline>'' @
     ''    Travelers: '' @ str_int (num_people ui) @ '' '' @ traveler_type ui @ '' travelers\<newline>'' @
     ''    Special requests: '' @ special_requests ui @ ''\<newline>'' @
     ''    \<newline>'' @
     ''    Output format:\<newline>'' @
     ''    # Travel Itinerary for '' @ destination ui @ ''\<newline>'' @
     ''    ## Day 1: [Date]\<newline>'' @
     ''    - [Time]: [Activity]\<newline>'' @
     ''    - [Time]: [Activity]\<newline>'' @
     ''    ...\<newline>'' @
     ''    ''"

definition experience_prompt :: "user_input \<Rightarrow> string" where
  "experience_prompt ui =
     ''\<newline>'' @
     ''    You are a Local Experience Specialist. Recommend activities in '' @
     destination ui @ '' for '' @ traveler_type ui @ '' travelers.\<newline>'' @
     ''    Special requests: '' @ special_requests ui @ ''\<newline>'' @
     ''    \<newline>'' @
     ''    Output format:\<newline>'' @
     ''    # Local Experiences in '' @ destination ui @ ''\<newline>'' @
     ''    ## Must-Try Activities\<newline>'' @
     ''    - [Activity 1]: [Description]\<newline>'' @
     ''    - [Activity 2]: [Description]\<newline>'' @
     ''    \<newline>'' @
     ''    ## Cultural Experiences\<newline>'' @
     ''    - [Experience 1]: [Description]\<newline>'' @
     ''    ''"

definition recommendation_prompt :: "user_input \<Rightarrow> string" where
  "recommendation_prompt ui =
     ''\<newline>'' @
     ''    You are a Hospitality Concierge. Recommend hotels and transport in '' @
     destination ui @ '' for '' @ str_int (num_people ui) @ '' '' @ traveler_type ui @ '' travelers.\<newline>'' @
     ''    Budget level: '' @ budget_level ui @ ''\<newline>'' @
     ''    \<newline>'' @
     ''    Output format:\<newline>'' @
     ''    # Accommodations & Transport\<newline>'' @
     ''    ## Hotels\<newline>'' @
     ''    - [Option 1]: [Price range], [Features]\<newline>'' @
     ''    \<newline>'' @
     ''    ## Transportation\<newline>'' @
     ''    - [Option 1]: [Description]\<newline>'' @
     ''    ''"

definition safety_prompt :: "user_input \<Rightarrow> string" where
  "safety_prompt ui =
     ''\<newline>'' @
     ''    You are a Travel Security Advisor. Provide safety tips for '' @ destination ui @
     '' during '' @ start_date ui @ '' to '' @ end_date ui @ ''.\<newline>'' @
     ''    \<newline>'' @
     ''    Output format:\<newline>'' @
     ''    # Safety Information\<newline>'' @
     ''    ## Travel Advisories\<newline>'' @
     ''    - [Advisory 1]\<newline>'' @
     ''    \<newline>'' @
     ''    ## Health Recommendations\<newline>'' @
     ''    - [Recommendation 1]\<newline>'' @
     ''    \<newline>'' @
     ''    ## Emergency Contacts\<newline>'' @
     ''    - [Contact 1]\<newline>'' @
     ''    ''"

definition budget_prompt :: "user_input \<Rightarrow> string" where
  "budget_prompt ui =
     ''\<newline>'' @
     ''    You are a Travel Finance Manager. Estimate costs for '' @ str_int (num_people ui) @
     '' people traveling to '' @ destination ui @ '' for '' @ str_int (duration ui) @ '' days. Also suggest packing items.\<newline>'' @
     ''    \<newline>'' @
     ''    Output format:\<newline>'' @
     ''    # Budget Estimate\<newline>'' @
     ''    ## Cost Breakdown\<newline>'' @
     ''    - Accommodation: [Estimate]\<newline>'' @
     ''    - Transportation: [Estimate]\<newline>'' @
     ''    - Total: [Total Estimate]\<newline>'' @
     ''    \<newline>'' @
     ''    # Packing List\<newline>'' @
     ''    - [Category 1]\<newline>'' @
     ''      - [Item 1]\<newline>'' @
     ''      - [Item 2]\<newline>'' @
     ''    ''"

text \<open>Each agent function renders its prompt and calls the client with its defaults.\<close>

definition planner_agent :: "endpoint \<Rightarrow> user_input \<Rightarrow> event list \<Rightarrow> (exn + string) \<times> event list" where
  "planner_agent ep ui tr = query_llama ep (planner_prompt ui) 3 tr"

definition experience_agent :: "endpoint \<Rightarrow> user_input \<Rightarrow> event list \<Rightarrow> (exn + string) \<times> event list" where
  "experience_agent ep ui tr = query_llama ep (experience_prompt ui) 3 tr"

definition recommendation_agent :: "endpoint \<Rightarrow> user_input \<Rightarrow> event list \<Rightarrow> (exn + string) \<times> event list" where
  "recommendation_agent ep ui tr = query_llama ep (recommendation_prompt ui) 3 tr"

definition safety_agent :: "endpoint \<Rightarrow> user_input \<Rightarrow> event list \<Rightarrow> (exn + string) \<times> event list" where
  "safety_agent ep ui tr = query_llama ep (safety_prompt ui) 3 tr"

definition budget_agent :: "endpoint \<Rightarrow> user_input \<Rightarrow> event list \<Rightarrow> (exn + string) \<times> event list" where
  "budget_agent ep ui tr = query_llama ep (budget_prompt ui) 3 tr"

section \<open>The processing block of travel\_assistant.py\<close>

text \<open>
  The session state the block works on: the \<open>results\<close> dictionary, the
  \<open>processing\<close> flag, and the effects so far.
\<close>

record session =
  results :: "string \<rightharpoonup> string"
  processing :: bool
  trace :: "event list"

definition emit :: "event \<Rightarrow> session \<Rightarrow> session" where
  "emit e s = s\<lparr>trace := trace s @ [e]\<rparr>"

definition assign :: "string \<Rightarrow> string \<Rightarrow> session \<Rightarrow> session" where
  "assign k v s = emit (Assign k v) (s\<lparr>results := (results s)(k \<mapsto> v)\<rparr>)"

definition call :: "(event list \<Rightarrow> (exn + string) \<times> event list) \<Rightarrow> session \<Rightarrow> (exn + string) \<times> session" where
  "call f s = (case f (trace s) of (r, tr) \<Rightarrow> (r, s\<lparr>trace := tr\<rparr>))"

text \<open>
  The split of the budget agent's output: the values stored under \<open>budget\<close> and
  \<open>packing\<close>. \<open>parts[0]\<close> of an empty list would raise \<open>IndexError\<close>; the
  conditional expression binds weaker than \<open>+\<close>, so the packing entry is \<open>""\<close>
  when there is no second part.
\<close>

definition budget_parts :: "string \<Rightarrow> exn + string \<times> string" where
  "budget_parts budget_result =
     (if str_contains ''Packing List'' budget_result then
        (case str_split ''# Packing List'' budget_result of
           [] \<Rightarrow> Inl IndexError
         | p0 # ps \<Rightarrow> Inr (p0, case ps of [] \<Rightarrow> [] | p1 # _ \<Rightarrow> ''# Packing List'' @ p1))
      else
        Inr (budget_result, ''Packing list not generated''))"

text \<open>
  The \<open>try\<close> block: the exception that leaves it, if any, and the state at that point.
  \<open>st.rerun\<close> ends the script run.
\<close>

definition try_block :: "endpoint \<Rightarrow> user_input \<Rightarrow> session \<Rightarrow> exn option \<times> session" where
  "try_block ep ui s0 =
     (case call (planner_agent ep ui) s0 of
        (Inl e, s) \<Rightarrow> (Some e, s)
      | (Inr itinerary, s) \<Rightarrow>
     (case call (experience_agent ep ui) (assign ''itinerary'' itinerary s) of
        (Inl e, s) \<Rightarrow> (Some e, s)
      | (Inr experiences, s) \<Rightarrow>
     (case call (recommendation_agent ep ui) (assign ''experiences'' experiences s) of
        (Inl e, s) \<Rightarrow> (Some e, s)
      | (Inr recommendations, s) \<Rightarrow>
     (case call (safety_agent ep ui) (assign ''recommendations'' recommendations s) of
        (Inl e, s) \<Rightarrow> (Some e, s)
      | (Inr safety, s) \<Rightarrow>
     (case call (budget_agent ep ui) (assign ''safety'' safety s) of
        (Inl e, s) \<Rightarrow> (Some e, s)
      | (Inr budget_result, s) \<Rightarrow>
     (case budget_parts budget_result of
        Inl e \<Rightarrow> (Some e, s)
      | Inr (budget, packing) \<Rightarrow>
          (None,
           emit Rerun
             ((emit (StatusUpdate ''complete'')
                (assign ''packing'' packing (assign ''budget'' budget s)))\<lparr>processing := False\<rparr>))))))))"

definition except_handler :: "exn \<Rightarrow> session \<Rightarrow> session" where
  "except_handler e s =
     emit (StatusUpdate ''error'')
       ((emit (StError (''Planning failed: '' @ str_exn e)) s)\<lparr>processing := False\<rparr>)"

definition processing_block :: "endpoint \<Rightarrow> user_input \<Rightarrow> session \<Rightarrow> session" where
  "processing_block ep ui s =
     (if processing s then
        (case try_block ep ui s of
           (None, s') \<Rightarrow> s'
         | (Some e, s') \<Rightarrow> except_handler e s')
      else s)"

section \<open>The crew variant (travel\_crew.py)\<close>

record agent =
  role :: string
  goal :: string
  backstory :: string
  llm :: string

record task =
  description :: string
  expected_output :: string
  agent :: agent

definition create_agents :: "string \<Rightarrow> agent \<times> agent \<times> agent \<times> agent \<times> agent" where
  "create_agents model =
     (\<lparr>role = ''Senior Travel Planner'',
       goal = ''Create personalized travel itineraries'',
       backstory = ''Expert travel planner with 20+ years experience crafting perfect schedules'',
       llm = model\<rparr>,
      \<lparr>role = ''Local Experience Specialist'',
       goal = ''Recommend unique local experiences and cultural activities'',
       backstory = ''Cultural anthropologist and world traveler with deep local knowledge'',
       llm = model\<rparr>,
      \<lparr>role = ''Hospitality Concierge'',
       goal = ''Suggest accommodations, transportation, and dining options'',
       backstory = ''Former five-star hotel manager with premium service connections'',
       llm = model\<rparr>,
      \<lparr>role = ''Travel Security Advisor'',
       goal = ''Provide safety information and travel advisories'',
       backstory = ''Ex-government security specialist with 15 years in travel risk management'',
       llm = model\<rparr>,
      \<lparr>role = ''Travel Finance Manager'',
       goal = ''Create budget estimates and packing suggestions'',
       backstory = ''Financial planner specializing in travel economics'',
       llm = model\<rparr>)"

definition itinerary_description :: "user_input \<Rightarrow> string" where
  "itinerary_description ui =
     ''Create a detailed '' @ str_int (duration ui) @ ''-day itinerary for a trip from '' @
     start_date ui @ '' to '' @ end_date ui @ ''.\<newline>'' @
     ''        Destination: '' @ destination ui @ ''\<newline>'' @
     ''        Travelers: '' @ str_int (num_people ui) @ '' '' @ traveler_type ui @ '' travelers\<newline>'' @
     ''        Special requests: '' @ special_requests ui @ ''\<newline>'' @
     ''\<newline>'' @
     ''        Output format:\<newline>'' @
     ''        # Travel Itinerary for '' @ destination ui @ ''\<newline>'' @
     ''        ## Day 1: [Date]\<newline>'' @
     ''        - [Time]: [Activity]\<newline>'' @
     ''        - [Time]: [Activity]\<newline>'' @
     ''        ...\<newline>'' @
     ''        Ensure the output is pure markdown, with no extra text or explanations.\<newline>'' @
     ''        ''"

definition experience_description :: "user_input \<Rightarrow> string" where
  "experience_description ui =
     ''Recommend unique and local activities in '' @ destination ui @ '' for '' @ traveler_type ui @
     '' travelers. Focus on cultural, adventure, and local experiences.\<newline>'' @
     ''        Special requests: '' @ special_requests ui @ ''\<newline>'' @
     ''\<newline>'' @
     ''        Output format:\<newline>'' @
     ''        # Local Experiences in '' @ destination ui @ ''\<newline>'' @
     ''        ## Must-Try Activities\<newline>'' @
     ''        - [Activity 1]: [Description]\<newline>'' @
     ''        - [Activity 2]: [Description]\<newline>'' @
     ''\<newline>'' @
     ''        ## Cultural Experiences\<newline>'' @
     ''        - [Experience 1]: [Description]\<newline>'' @
     ''        - [Experience 2]: [Description]\<newline>'' @
     ''        Ensure the output is pure markdown, with no extra text or explanations.\<newline>'' @
     ''        ''"

definition recommendation_description :: "user_input \<Rightarrow> string" where
  "recommendation_description ui =
     ''Recommend hotels, transportation, and dining options in '' @ destination ui @
     '' for '' @ str_int (num_people ui) @ '' '' @ traveler_type ui @ '' travelers.\<newline>'' @
     ''        Budget level: '' @ budget_level ui @ ''\<newline>'' @
     ''\<newline>'' @
     ''        Output format:\<newline>'' @
     ''        # Accommodations & Transport\<newline>'' @
     ''        ## Hotels\<newline>'' @
     ''        - [Hotel Option 1]: [Price range], [Features], [Location]\<newline>'' @
     ''        - [Hotel Option 2]: [Price range], [Features], [Location]\<newline>'' @
     ''\<newline>'' @
     ''        ## Transportation\<newline>'' @
     ''        - [Transport Option 1]: [Description]\<newline>'' @
     ''        - [Transport Option 2]: [Description]\<newline>'' @
     ''\<newline>'' @
     ''        ## Dining Suggestions\<newline>'' @
     ''        - [Restaurant Name 1]: [Cuisine], [Price range], [Notes based on special requests]\<newline>'' @
     ''        - [Restaurant Name 2]: [Cuisine], [Price range], [Notes based on special requests]\<newline>'' @
     ''        Ensure the output is pure markdown, with no extra text or explanations.\<newline>'' @
     ''        ''"

definition safety_description :: "user_input \<Rightarrow> string" where
  "safety_description ui =
     ''Provide comprehensive safety tips and travel advisories for '' @ destination ui @
     '' for the period '' @ start_date ui @ '' to '' @ end_date ui @ ''. Include health recommendations and essential emergency contacts.\<newline>'' @
     ''\<newline>'' @
     ''        Output format:\<newline>'' @
     ''        # Safety Information for '' @ destination ui @ ''\<newline>'' @
     ''        ## Travel Advisories\<newline>'' @
     ''        - [Advisory 1]: [Details]\<newline>'' @
     ''        - [Advisory 2]: [Details]\<newline>'' @
     ''\<newline>'' @
     ''        ## Health Recommendations\<newline>'' @
     ''        - [Recommendation 1]: [Details]\<newline>'' @
     ''        - [Recommendation 2]: [Details]\<newline>'' @
     ''\<newline>'' @
     ''        ## Emergency Contacts\<newline>'' @
     ''        - [Contact Name/Service 1]: [Number]\<newline>'' @
     ''        - [Contact Name/Service 2]: [Number]\<newline>'' @
     ''        Ensure the output is pure markdown, with no extra text or explanations.\<newline>'' @
     ''        ''"

definition budget_description :: "user_input \<Rightarrow> string" where
  "budget_description ui =
     ''Estimate costs for '' @ str_int (num_people ui) @ '' people traveling to '' @
     destination ui @ '' for '' @ str_int (duration ui) @ '' days, considering a '' @ budget_level ui @
     '' budget.\<newline>'' @
     ''            Also, suggest a comprehensive packing list based on the destination and travel dates.\<newline>'' @
     ''\<newline>'' @
     ''        Output format:\<newline>'' @
     ''        # Budget Estimate for '' @ destination ui @ '' Trip\<newline>'' @
     ''        ## Cost Breakdown (Estimates)\<newline>'' @
     ''        - Accommodation: [Estimate per person/total, e.g., $X/night or $Y total]\<newline>'' @
     ''        - Transportation: [Estimate per person/total]\<newline>'' @
     ''        - Food & Dining: [Estimate per person/total]\<newline>'' @
     ''        - Activities/Experiences: [Estimate per person/total]\<newline>'' @
     ''        - Miscellaneous: [Estimate per person/total]\<newline>'' @
     ''        - **Total Estimated Cost:** [Total Estimate]\<newline>'' @
     ''\<newline>'' @
     ''        # Packing List for '' @ destination ui @ '' Trip\<newline>'' @
     ''        ## Clothing\<newline>'' @
     ''        - [Item 1]\<newline>'' @
     ''        - [Item 2]\<newline>'' @
     ''        ## Essentials\<newline>'' @
     ''        - [Item 1]\<newline>'' @
     ''        - [Item 2]\<newline>'' @
     ''        ## Health & Safety\<newline>'' @
     ''        - [Item 1]\<newline>'' @
     ''        - [Item 2]\<newline>'' @
     ''        Ensure the output is pure markdown, with no extra text or explanations.\<newline>'' @
     ''        ''"

definition create_tasks :: "user_input \<Rightarrow> agent \<times> agent \<times> agent \<times> agent \<times> agent \<Rightarrow> task \<times> task \<times> task \<times> task \<times> task" where
  "create_tasks ui agents =
     (case agents of (planner, experience, recommendation, safety, budget) \<Rightarrow>
        (\<lparr>description = itinerary_description ui,
          expected_output = ''Markdown formatted daily itinerary'',
          agent = planner\<rparr>,
         \<lparr>description = experience_description ui,
          expected_output = ''Curated list of experiences with descriptions in markdown'',
          agent = experience\<rparr>,
         \<lparr>description = recommendation_description ui,
          expected_output = ''Structured recommendations with options for hotels, transport, and dining in markdown'',
          agent = recommendation\<rparr>,
         \<lparr>description = safety_description ui,
          expected_output = ''Safety briefing document with categorized information in markdown'',
          agent = safety\<rparr>,
         \<lparr>description = budget_description ui,
          expected_output = ''Budget breakdown and categorized packing list in markdown'',
          agent = budget\<rparr>))"

text \<open>
  \<open>Crew(...).kickoff()\<close> belongs to the CrewAI library. With \<open>Process.sequential\<close>
  it runs the tasks one after another in the order of the task list; what running one
  task gives is a parameter: an exception, which leaves \<open>kickoff\<close>, or the task's
  output (\<open>None\<close> when the task ends up without one). The result lists the outputs
  the task objects hold afterwards. The constructors of the library's objects are taken
  to return.
\<close>

type_synonym executor = "nat \<Rightarrow> task \<Rightarrow> exn + string option"

fun kickoff :: "executor \<Rightarrow> task list \<Rightarrow> nat \<Rightarrow> event list \<Rightarrow> (exn + string option list) \<times> event list" where
  "kickoff ex [] n tr = (Inr [], tr)"
| "kickoff ex (t # ts) n tr =
     (case ex n t of
        Inl e \<Rightarrow> (Inl e, tr @ [Execute (description t)])
      | Inr out \<Rightarrow>
          (case kickoff ex ts (Suc n) (tr @ [Execute (description t)]) of
             (Inl e, tr') \<Rightarrow> (Inl e, tr')
           | (Inr outs, tr') \<Rightarrow> (Inr (out # outs), tr')))"

definition raw_or :: "string option \<Rightarrow> string \<Rightarrow> string" where
  "raw_or output dflt = (case output of Some raw \<Rightarrow> raw | None \<Rightarrow> dflt)"

text \<open>
  The packing list extraction, on the raw budget string: the new \<open>budget\<close> and
  \<open>packing\<close> entries. \<open>parts[1]\<close> of a shorter list would raise \<open>IndexError\<close>.
\<close>

definition packing_list_marker :: string where
  "packing_list_marker = ''# Packing List''"

definition extract_packing :: "string \<Rightarrow> exn + string \<times> string" where
  "extract_packing budget_output_raw =
     (if str_contains packing_list_marker budget_output_raw then
        (case str_split_once packing_list_marker budget_output_raw of
           p0 # p1 # _ \<Rightarrow> Inr (str_strip p0, packing_list_marker @ str_strip p1)
         | _ \<Rightarrow> Inl IndexError)
      else
        Inr (budget_output_raw, ''Packing list section not found in budget output.''))"

definition try_crew :: "executor \<Rightarrow> string \<Rightarrow> user_input \<Rightarrow> session \<Rightarrow> exn option \<times> session" where
  "try_crew ex selected_model ui s0 =
     (case create_tasks ui (create_agents selected_model) of
        (itinerary_task, experience_task, recommendation_task, safety_task, budget_task) \<Rightarrow>
     (case kickoff ex [itinerary_task, experience_task, recommendation_task, safety_task, budget_task] 0 (trace s0) of
        (Inl e, tr) \<Rightarrow> (Some e, s0\<lparr>trace := tr\<rparr>)
      | (Inr outs, tr) \<Rightarrow>
     (case extract_packing (raw_or (outs ! 4) ''No budget generated.'') of
        Inl e \<Rightarrow> (Some e, s0\<lparr>trace := tr\<rparr>)
      | Inr (budget, packing) \<Rightarrow>
          (None,
           s0\<lparr>results :=
                 [''itinerary'' \<mapsto> raw_or (outs ! 0) ''No itinerary generated.'',
                  ''experiences'' \<mapsto> raw_or (outs ! 1) ''No experiences generated.'',
                  ''recommendations'' \<mapsto> raw_or (outs ! 2) ''No recommendations generated.'',
                  ''safety'' \<mapsto> raw_or (outs ! 3) ''No safety info generated.'',
                  ''budget'' \<mapsto> budget,
                  ''packing'' \<mapsto> packing],
               processing := False,
               trace := tr @ [StatusUpdate ''complete'', Rerun]\<rparr>))))"

definition except_crew :: "exn \<Rightarrow> session \<Rightarrow> session" where
  "except_crew e s =
     s\<lparr>results := [''error'' \<mapsto> ''Failed to generate plan: '' @ str_exn e],
       processing := False,
       trace := trace s @ [StError (''Planning failed: '' @ str_exn e), StatusUpdate ''error'', Rerun]\<rparr>"

definition processing_crew :: "executor \<Rightarrow> string \<Rightarrow> user_input \<Rightarrow> session \<Rightarrow> session" where
  "processing_crew ex selected_model ui s =
     (if processing s then
        (case try_crew ex selected_model ui s of
           (None, s') \<Rightarrow> s'
         | (Some e, s') \<Rightarrow> except_crew e s')
      else s)"

section \<open>The weather tool (travel\_tools.py, WeatherTool.\_run)\<close>

text \<open>
  What \<open>requests.get(url).json()\<close> and the reads of the body lead to, by the branch
  of \<open>_run\<close> they take: a \<open>RequestException\<close>; a body whose \<open>cod\<close> is not 200,
  with its \<open>message\<close> if it has one; a body with \<open>cod\<close> 200, the rendered
  temperature and the description; a \<open>KeyError\<close> while reading the body; an exception
  of another class, which \<open>_run\<close> does not catch. The environment is a map from
  variable names to values.
\<close>

datatype weather_reply =
    ConnectionFailed string
  | ApiError "string option"
  | Report string string
  | MissingKey
  | WeatherCrash string

definition weather_run :: "(string \<rightharpoonup> string) \<Rightarrow> (string \<Rightarrow> weather_reply) \<Rightarrow> string \<Rightarrow> event list \<Rightarrow> (exn + string) \<times> event list" where
  "weather_run environ api city tr =
     (case environ ''OPENWEATHERMAP_API_KEY'' of
        None \<Rightarrow>
          (Inr ''Error: OpenWeatherMap API key not found in environment variables. Please set OPENWEATHERMAP_API_KEY in your .env file.'', tr)
      | Some api_key \<Rightarrow>
          if api_key = [] then
            (Inr ''Error: OpenWeatherMap API key not found in environment variables. Please set OPENWEATHERMAP_API_KEY in your .env file.'', tr)
          else
            (let url = ''https://api.openweathermap.org/data/2.5/weather?q='' @ city @ ''&appid='' @ api_key @ ''&units=metric''
             in (case api url of
                   ConnectionFailed e \<Rightarrow> Inr (''Error connecting to OpenWeatherMap API: '' @ e)
                 | ApiError None \<Rightarrow>
                     Inr (''Error fetching weather for '' @ city @ '': Unknown error from OpenWeatherMap API'')
                 | ApiError (Some error_message) \<Rightarrow>
                     Inr (''Error fetching weather for '' @ city @ '': '' @ error_message)
                 | Report temp weather \<Rightarrow> Inr (city @ '': '' @ temp @ [CHR 0xB0] @ ''C, '' @ weather)
                 | MissingKey \<Rightarrow>
                     Inr ''Error: Unexpected response format from OpenWeatherMap API. Check city name or API key.''
                 | WeatherCrash m \<Rightarrow> Inl (Raised m),
                 tr @ [Get url])))"

section \<open>Notions used to state the properties\<close>

text \<open>
  The effects of the attempts \<open>as\<close> when each of them fails and is retried: a request
  and the sleep that follows it.
\<close>

definition backoff :: "string \<Rightarrow> nat list \<Rightarrow> event list" where
  "backoff prompt as = concat (map (\<lambda>i. [Post prompt, Sleep (wait_time i)]) as)"

fun is_Sleep :: "event \<Rightarrow> bool" where
  "is_Sleep (Sleep n) = True"
| "is_Sleep e = False"

text \<open>
  The effects of one call of the client for a prompt: a first request with that prompt,
  then only further requests with it and sleeps.
\<close>

definition client_event :: "string \<Rightarrow> event \<Rightarrow> bool" where
  "client_event prompt e = (e = Post prompt \<or> is_Sleep e)"

definition client_segment :: "string \<Rightarrow> event list \<Rightarrow> bool" where
  "client_segment prompt T =
     (case T of [] \<Rightarrow> False | e # es \<Rightarrow> e = Post prompt \<and> list_all (client_event prompt) es)"

text \<open>The effects that happened between two states of a run.\<close>

definition new_events :: "session \<Rightarrow> session \<Rightarrow> event list" where
  "new_events s s' = drop (length (trace s)) (trace s')"

text \<open>
  The budget section as C5 words it: everything before the first occurrence of the
  marker, trimmed of trailing whitespace.
\<close>

definition claimed_budget_section :: "string \<Rightarrow> string" where
  "claimed_budget_section combined =
     (case str_find ''# Packing List'' combined of
        Some i \<Rightarrow> str_rstrip (take i combined)
      | None \<Rightarrow> combined)"

text \<open>The task list that the processing block of travel\_crew hands to the crew.\<close>

definition crew_tasks :: "string \<Rightarrow> user_input \<Rightarrow> task list" where
  "crew_tasks selected_model ui =
     (case create_tasks ui (create_agents selected_model) of
        (itinerary_task, experience_task, recommendation_task, safety_task, budget_task) \<Rightarrow>
          [itinerary_task, experience_task, recommendation_task, safety_task, budget_task])"

subsection \<open>Sample inputs\<close>

text \<open>
  A week in Paris for a couple, a fresh session in which the button has just set
  \<open>processing\<close>, and stub endpoints and crews.
\<close>

definition sample_request :: user_input where
  "sample_request =
     \<lparr>start_date = ''2025-06-01'', end_date = ''2025-06-08'', duration = 7,
      from_location = ''New York'', destination = ''Paris, France'', num_people = 2,
      traveler_type = ''Couple'', budget_level = ''Mid-range'',
      special_requests = ''Vegetarian food, accessible locations''\<rparr>"

definition fresh_session :: session where
  "fresh_session = \<lparr>results = Map.empty, processing = True, trace = []\<rparr>"

definition always_answers :: endpoint where
  "always_answers prompt n = Json (Some ''Total: 100\<newline># Packing List\<newline>- socks'')"

definition always_times_out :: endpoint where
  "always_times_out prompt n = RequestException ''timeout''"

definition third_stage_raises :: endpoint where
  "third_stage_raises prompt n =
     (if n = 0 then Json (Some ''Day 1: Louvre'')
      else if n = 1 then Json (Some ''Seine cruise'')
      else OtherException ''boom'')"

definition third_task_raises :: executor where
  "third_task_raises n t =
     (if n = 0 then Inr (Some ''Day 1: Louvre'')
      else if n = 1 then Inr (Some ''Seine cruise'')
      else Inl (Raised ''boom''))"

definition answers_without_heading :: endpoint where
  "answers_without_heading prompt n = Json (Some ''Packing List: socks'')"

section \<open>Facts about the string functions\<close>

lemma str_find_starts: "str_find sub s = Some i \<Longrightarrow> starts_with sub (drop i s)"
proof (induction s arbitrary: i)
  case Nil
  then show ?case by (simp add: starts_with_def split: if_splits)
next
  case (Cons c cs)
  then show ?case by (auto split: if_splits)
qed

lemma str_find_first: "str_find sub s = Some i \<Longrightarrow> j < i \<Longrightarrow> \<not> starts_with sub (drop j s)"
proof (induction s arbitrary: i j)
  case Nil
  then show ?case by (simp split: if_splits)
next
  case (Cons c cs)
  from Cons.prems have no: "\<not> starts_with sub (c # cs)"
    by (auto split: if_splits)
  with Cons.prems obtain i' where i': "str_find sub cs = Some i'" "i = Suc i'"
    by auto
  show ?case
  proof (cases j)
    case 0
    with no show ?thesis by simp
  next
    case (Suc j')
    with Cons.prems(2) i' have "j' < i'" by simp
    from Cons.IH [OF i'(1) this] Suc show ?thesis by simp
  qed
qed

lemma str_find_occurs: "starts_with sub (drop j s) \<Longrightarrow> str_find sub s \<noteq> None"
proof (induction s arbitrary: j)
  case Nil
  then show ?case by (simp add: starts_with_def)
next
  case (Cons c cs)
  show ?case
  proof (cases "starts_with sub (c # cs)")
    case True
    then show ?thesis by simp
  next
    case False
    with Cons.prems obtain j' where "j = Suc j'"
      by (cases j) auto
    with Cons.prems have "starts_with sub (drop j' cs)" by simp
    from Cons.IH [OF this] False show ?thesis by simp
  qed
qed

lemma str_find_split: "str_find sub s = Some i \<Longrightarrow> s = take i s @ sub @ drop (i + length sub) s"
proof -
  assume f: "str_find sub s = Some i"
  from str_find_starts [OF f] have "take (length sub) (drop i s) = sub"
    by (simp add: starts_with_def)
  then have "drop i s = sub @ drop (length sub) (drop i s)"
    by (metis append_take_drop_id)
  then have "drop i s = sub @ drop (i + length sub) s"
    by (simp add: add.commute)
  then show ?thesis
    by (metis append_take_drop_id)
qed

lemma str_contains_tail: "str_contains (a @ b) s \<Longrightarrow> str_contains b s"
proof -
  assume "str_contains (a @ b) s"
  then obtain i where f: "str_find (a @ b) s = Some i"
    by (auto simp: str_contains_def)
  from str_find_split [OF f] have "s = (take i s @ a) @ b @ drop (i + length (a @ b)) s"
    by simp
  then have "drop (length (take i s @ a)) s = b @ drop (i + length (a @ b)) s"
    by (metis append_eq_conv_conj)
  then have "starts_with b (drop (length (take i s @ a)) s)"
    by (simp add: starts_with_def)
  then show ?thesis
    unfolding str_contains_def by (rule str_find_occurs)
qed

lemma str_split_none: "str_find sep s = None \<Longrightarrow> str_split sep s = [s]"
  by (subst str_split.simps) simp

lemma str_split_some:
  "str_find sep s = Some i \<Longrightarrow> sep \<noteq> [] \<Longrightarrow>
   str_split sep s = take i s # str_split sep (drop (i + length sep) s)"
  by (subst str_split.simps) simp

lemma str_split_nonempty: "str_split sep s \<noteq> []"
  by (subst str_split.simps) (simp split: option.splits)

section \<open>Facts about the client\<close>

lemma posts_append: "posts (xs @ ys) = posts xs + posts ys"
  by (simp add: posts_def)

lemma sleeps_append: "sleeps (xs @ ys) = sleeps xs @ sleeps ys"
  by (induction xs rule: sleeps.induct) auto

lemma posts_backoff: "posts (backoff prompt as) = length as"
  by (induction as) (simp_all add: backoff_def posts_def)

lemma sleeps_backoff: "sleeps (backoff prompt as) = map wait_time as"
  by (induction as) (simp_all add: backoff_def)

lemma sum_wait_time: "sum_list (map wait_time [0..<k]) = (\<Sum>i<k. 2 ^ i)"
  by (induction k) (simp_all add: wait_time_def)

text \<open>
  While the endpoint keeps raising \<open>RequestException\<close> and the attempt is not the last
  one, the loop posts, sleeps and goes on.
\<close>

lemma attempts_retry:
  assumes "\<forall>i<length as. \<exists>m. ep prompt (posts tr + i) = RequestException m"
    and "\<forall>a\<in>set as. int a < N - 1"
  shows "attempts ep prompt N (as @ rest) tr = attempts ep prompt N rest (tr @ backoff prompt as)"
  using assms
proof (induction as arbitrary: tr)
  case Nil
  then show ?case by (simp add: backoff_def)
next
  case (Cons a as)
  from Cons.prems(1) obtain m where m: "ep prompt (posts tr) = RequestException m"
    by fastforce
  let ?tr = "tr @ [Post prompt, Sleep (wait_time a)]"
  have p: "posts ?tr = Suc (posts tr)"
    by (simp add: posts_def)
  have later: "\<forall>i<length as. \<exists>m. ep prompt (posts ?tr + i) = RequestException m"
  proof (intro allI impI)
    fix i assume "i < length as"
    then have "Suc i < length (a # as)" by simp
    with Cons.prems(1) obtain m where "ep prompt (posts tr + Suc i) = RequestException m"
      by blast
    then show "\<exists>m. ep prompt (posts ?tr + i) = RequestException m"
      by (simp add: p)
  qed
  have "attempts ep prompt N ((a # as) @ rest) tr = attempts ep prompt N (as @ rest) ?tr"
    using m Cons.prems(2) by simp
  also have "\<dots> = attempts ep prompt N rest (?tr @ backoff prompt as)"
    using Cons.IH [OF later] Cons.prems(2) by simp
  finally show ?case by (simp add: backoff_def)
qed

lemma query_llama_after_failures:
  assumes N: "int k < N"
    and fails: "\<forall>i<k. \<exists>m. ep prompt (posts tr + i) = RequestException m"
  shows "query_llama ep prompt N tr =
    attempts ep prompt N (k # [Suc k..<nat N]) (tr @ backoff prompt [0..<k])"
proof -
  from N have k: "k < nat N" by simp
  then have "[0..<nat N] = [0..<k] @ [k..<nat N]"
    by (metis le_add_diff_inverse less_imp_le_nat upt_add_eq_append zero_le)
  with k have split: "[0..<nat N] = [0..<k] @ k # [Suc k..<nat N]"
    by (simp add: upt_conv_Cons)
  have small: "\<forall>a\<in>set [0..<k]. int a < N - 1"
    using N by auto
  show ?thesis
    unfolding query_llama_def split
    using attempts_retry [of "[0..<k]" ep prompt tr N] fails small by simp
qed

lemma query_llama_success:
  assumes "int k < N"
    and "\<forall>i<k. \<exists>m. ep prompt (posts tr + i) = RequestException m"
    and "ep prompt (posts tr + k) = Json (Some text)"
  shows "query_llama ep prompt N tr = (Inr text, tr @ backoff prompt [0..<k] @ [Post prompt])"
  using assms query_llama_after_failures [of k N ep prompt tr]
  by (simp add: posts_append posts_backoff)

lemma query_llama_malformed:
  assumes "int k < N"
    and "\<forall>i<k. \<exists>m. ep prompt (posts tr + i) = RequestException m"
    and "ep prompt (posts tr + k) = Json None"
  shows "query_llama ep prompt N tr =
    (Inr ''Error: Invalid response format from LLM'', tr @ backoff prompt [0..<k] @ [Post prompt])"
  using assms query_llama_after_failures [of k N ep prompt tr]
  by (simp add: posts_append posts_backoff)

lemma query_llama_all_fail:
  assumes N: "1 \<le> N"
    and fails: "\<forall>i<nat N. \<exists>m. ep prompt (posts tr + i) = RequestException m"
  shows "query_llama ep prompt N tr =
    (Inr (''Error: LLM request failed after '' @ str_int N @ '' attempts''),
     tr @ backoff prompt [0..<nat N - 1] @ [Post prompt])"
proof -
  define k where "k = nat N - 1"
  from N have k: "nat N = Suc k" "int k = N - 1" by (simp_all add: k_def)
  from k have kN: "int k < N" by simp
  from fails k obtain m where last: "ep prompt (posts tr + k) = RequestException m"
    by (metis lessI)
  from fails k have first: "\<forall>i<k. \<exists>m. ep prompt (posts tr + i) = RequestException m"
    by simp
  have "[Suc k..<nat N] = []"
    by (simp add: k)
  then have "query_llama ep prompt N tr = attempts ep prompt N [k] (tr @ backoff prompt [0..<k])"
    using query_llama_after_failures [of k N ep prompt tr] kN first by simp
  also have "\<dots> = (Inr (''Error: LLM request failed after '' @ str_int N @ '' attempts''),
       tr @ backoff prompt [0..<k] @ [Post prompt])"
    using last k by (simp add: posts_append posts_backoff)
  finally show ?thesis by (simp add: k_def)
qed

lemma attempts_trace:
  "\<exists>T. snd (attempts ep p N as tr) = tr @ T \<and> list_all (client_event p) T"
proof (induction as arbitrary: tr)
  case Nil
  then show ?case by simp
next
  case (Cons a as)
  show ?case
  proof (cases "ep p (posts tr)")
    case (RequestException m)
    show ?thesis
    proof (cases "int a < N - 1")
      case True
      from Cons.IH [of "tr @ [Post p, Sleep (wait_time a)]"] obtain T
        where "snd (attempts ep p N as (tr @ [Post p, Sleep (wait_time a)])) = (tr @ [Post p, Sleep (wait_time a)]) @ T"
          and "list_all (client_event p) T"
        by blast
      with True RequestException have
        "snd (attempts ep p N (a # as) tr) = tr @ ([Post p, Sleep (wait_time a)] @ T)
         \<and> list_all (client_event p) ([Post p, Sleep (wait_time a)] @ T)"
        by (simp add: client_event_def)
      then show ?thesis by blast
    next
      case False
      with RequestException show ?thesis by (simp add: client_event_def)
    qed
  next
    case (Json body)
    then show ?thesis by (cases body) (simp_all add: client_event_def)
  next
    case (OtherException m)
    then show ?thesis by (simp add: client_event_def)
  qed
qed

lemma attempts_segment:
  assumes "as \<noteq> []"
  shows "\<exists>T. snd (attempts ep p N as tr) = tr @ T \<and> client_segment p T"
proof -
  from assms obtain a rest where as: "as = a # rest" by (cases as) auto
  show ?thesis
  proof (cases "ep p (posts tr)")
    case (RequestException m)
    show ?thesis
    proof (cases "int a < N - 1")
      case True
      from attempts_trace [of ep p N rest "tr @ [Post p, Sleep (wait_time a)]"] obtain T
        where "snd (attempts ep p N rest (tr @ [Post p, Sleep (wait_time a)])) = (tr @ [Post p, Sleep (wait_time a)]) @ T"
          and "list_all (client_event p) T"
        by blast
      with True RequestException as have
        "snd (attempts ep p N as tr) = tr @ (Post p # Sleep (wait_time a) # T)
         \<and> client_segment p (Post p # Sleep (wait_time a) # T)"
        by (simp add: client_segment_def client_event_def)
      then show ?thesis by blast
    next
      case False
      with RequestException as have
        "snd (attempts ep p N as tr) = tr @ [Post p] \<and> client_segment p [Post p]"
        by (simp add: client_segment_def)
      then show ?thesis by blast
    qed
  next
    case (Json body)
    with as have "snd (attempts ep p N as tr) = tr @ [Post p] \<and> client_segment p [Post p]"
      by (cases body) (simp_all add: client_segment_def)
    then show ?thesis by blast
  next
    case (OtherException m)
    with as have "snd (attempts ep p N as tr) = tr @ [Post p] \<and> client_segment p [Post p]"
      by (simp add: client_segment_def)
    then show ?thesis by blast
  qed
qed

lemma query_llama_segment:
  assumes "1 \<le> N"
  shows "\<exists>T. snd (query_llama ep p N tr) = tr @ T \<and> client_segment p T"
proof -
  from assms have "[0..<nat N] \<noteq> []" by simp
  then show ?thesis
    unfolding query_llama_def by (rule attempts_segment)
qed

lemma client_segment_no_assign: "client_segment p T \<Longrightarrow> Assign k v \<notin> set T"
  by (cases T) (auto simp: client_segment_def client_event_def list_all_iff)

section \<open>Facts about the two splits of the budget output\<close>

lemma marker_contains: "str_contains ''# Packing List'' s \<Longrightarrow> str_contains ''Packing List'' s"
  using str_contains_tail [of "''# ''" "''Packing List''" s] by simp

lemma budget_parts_single:
  assumes "str_contains ''Packing List'' b" and "\<not> str_contains ''# Packing List'' b"
  shows "budget_parts b = Inr (b, [])"
  using assms by (simp add: budget_parts_def str_contains_def str_split_none)

lemma budget_parts_absent:
  assumes "\<not> str_contains ''Packing List'' b"
  shows "budget_parts b = Inr (b, ''Packing list not generated'')"
  using assms by (simp add: budget_parts_def)

lemma budget_parts_marker:
  assumes f: "str_find ''# Packing List'' b = Some i"
  shows "budget_parts b =
    Inr (take i b,
         ''# Packing List'' @ hd (str_split ''# Packing List'' (drop (i + length ''# Packing List'') b)))"
proof -
  let ?rest = "str_split ''# Packing List'' (drop (i + length ''# Packing List'') b)"
  from f have c: "str_contains ''Packing List'' b"
    by (intro marker_contains) (simp add: str_contains_def)
  have sp: "str_split ''# Packing List'' b = take i b # ?rest"
    by (rule str_split_some) (use f in simp_all)
  obtain p1 ps where "?rest = p1 # ps"
    using str_split_nonempty by (cases ?rest) auto
  then show ?thesis
    unfolding budget_parts_def using c by (simp only: sp if_True list.case list.sel)
qed

lemma extract_packing_marker:
  assumes "str_find packing_list_marker raw = Some i"
  shows "extract_packing raw =
    Inr (str_strip (take i raw), packing_list_marker @ str_strip (drop (i + length packing_list_marker) raw))"
  using assms by (simp add: extract_packing_def str_contains_def str_split_once_def packing_list_marker_def)

lemma extract_packing_absent:
  assumes "\<not> str_contains packing_list_marker raw"
  shows "extract_packing raw = Inr (raw, ''Packing list section not found in budget output.'')"
  using assms by (simp add: extract_packing_def)

lemma budget_parts_total: "\<exists>budget packing. budget_parts b = Inr (budget, packing)"
  using str_split_nonempty [of "''# Packing List''" b]
  by (cases "str_split ''# Packing List'' b") (simp_all add: budget_parts_def)

lemma extract_packing_total: "\<exists>budget packing. extract_packing raw = Inr (budget, packing)"
proof (cases "str_find packing_list_marker raw")
  case None
  then show ?thesis by (simp add: extract_packing_absent str_contains_def)
next
  case (Some i)
  then show ?thesis by (simp add: extract_packing_marker)
qed

lemma strip_marker_rest:
  assumes "str_lstrip rest = rest"
  shows "str_strip (packing_list_marker @ rest) = packing_list_marker @ str_rstrip rest"
proof -
  have m: "packing_list_marker = ''# Packing Lis'' @ ''t''"
    by (simp add: packing_list_marker_def)
  have l: "str_lstrip (packing_list_marker @ rest) = packing_list_marker @ rest"
    by (simp add: str_lstrip_def packing_list_marker_def isspace_def)
  have rm: "dropWhile isspace (rev packing_list_marker) = rev packing_list_marker"
    by (simp add: packing_list_marker_def isspace_def)
  have l0: "str_lstrip packing_list_marker = packing_list_marker"
    by (simp add: str_lstrip_def packing_list_marker_def isspace_def)
  show ?thesis
  proof (cases "\<forall>c\<in>set rest. isspace c")
    case True
    have "rest = []"
    proof (cases rest)
      case Nil
      then show ?thesis .
    next
      case (Cons c cs)
      with True have "isspace c" by simp
      with Cons have "length (str_lstrip rest) \<le> length cs"
        by (simp add: str_lstrip_def length_dropWhile_le)
      with assms Cons show ?thesis by simp
    qed
    then show ?thesis
      by (simp add: str_strip_def l0 str_rstrip_def rm)
  next
    case False
    then have "dropWhile isspace (rev rest @ rev packing_list_marker)
        = dropWhile isspace (rev rest) @ rev packing_list_marker"
      by (auto simp: dropWhile_append)
    then show ?thesis
      by (simp add: str_strip_def l str_rstrip_def)
  qed
qed

section \<open>Facts about the processing blocks\<close>

lemma call_query_llama:
  assumes "call (query_llama ep p 3) s = (r, s')"
  shows "\<exists>T. s' = s\<lparr>trace := trace s @ T\<rparr> \<and> client_segment p T
           \<and> query_llama ep p 3 (trace s) = (r, trace s @ T)"
proof -
  from query_llama_segment [of 3 ep p "trace s"] obtain T
    where T: "snd (query_llama ep p 3 (trace s)) = trace s @ T" "client_segment p T"
    by auto
  from assms have "r = fst (query_llama ep p 3 (trace s))"
    and "s' = s\<lparr>trace := snd (query_llama ep p 3 (trace s))\<rparr>"
    by (auto simp: call_def split: prod.splits)
  with T show ?thesis by (metis prod.collapse)
qed

lemma call_planner:
  "call (planner_agent ep ui) s = (r, s') \<Longrightarrow>
     \<exists>T. s' = s\<lparr>trace := trace s @ T\<rparr> \<and> client_segment (planner_prompt ui) T
       \<and> planner_agent ep ui (trace s) = (r, trace s @ T)"
  using call_query_llama [of ep "planner_prompt ui" s r s']
  by (simp add: call_def planner_agent_def)

lemma call_experience:
  "call (experience_agent ep ui) s = (r, s') \<Longrightarrow>
     \<exists>T. s' = s\<lparr>trace := trace s @ T\<rparr> \<and> client_segment (experience_prompt ui) T
       \<and> experience_agent ep ui (trace s) = (r, trace s @ T)"
  using call_query_llama [of ep "experience_prompt ui" s r s']
  by (simp add: call_def experience_agent_def)

lemma call_recommendation:
  "call (recommendation_agent ep ui) s = (r, s') \<Longrightarrow>
     \<exists>T. s' = s\<lparr>trace := trace s @ T\<rparr> \<and> client_segment (recommendation_prompt ui) T
       \<and> recommendation_agent ep ui (trace s) = (r, trace s @ T)"
  using call_query_llama [of ep "recommendation_prompt ui" s r s']
  by (simp add: call_def recommendation_agent_def)

lemma call_safety:
  "call (safety_agent ep ui) s = (r, s') \<Longrightarrow>
     \<exists>T. s' = s\<lparr>trace := trace s @ T\<rparr> \<and> client_segment (safety_prompt ui) T
       \<and> safety_agent ep ui (trace s) = (r, trace s @ T)"
  using call_query_llama [of ep "safety_prompt ui" s r s']
  by (simp add: call_def safety_agent_def)

lemma call_budget:
  "call (budget_agent ep ui) s = (r, s') \<Longrightarrow>
     \<exists>T. s' = s\<lparr>trace := trace s @ T\<rparr> \<and> client_segment (budget_prompt ui) T
       \<and> budget_agent ep ui (trace s) = (r, trace s @ T)"
  using call_query_llama [of ep "budget_prompt ui" s r s']
  by (simp add: call_def budget_agent_def)

lemma call_results: "call f s = (r, s') \<Longrightarrow> results s' = results s \<and> processing s' = processing s"
  by (auto simp: call_def split: prod.splits)

lemma try_block_success:
  assumes "try_block ep ui s = (None, s')"
  shows "\<exists>T1 T2 T3 T4 T5 itinerary experiences recommendations safety budget_result budget packing.
      client_segment (planner_prompt ui) T1
    \<and> client_segment (experience_prompt ui) T2
    \<and> client_segment (recommendation_prompt ui) T3
    \<and> client_segment (safety_prompt ui) T4
    \<and> client_segment (budget_prompt ui) T5
    \<and> budget_agent ep ui
         (trace s @ T1 @ [Assign ''itinerary'' itinerary] @ T2 @ [Assign ''experiences'' experiences] @ T3
            @ [Assign ''recommendations'' recommendations] @ T4 @ [Assign ''safety'' safety])
       = (Inr budget_result,
          trace s @ T1 @ [Assign ''itinerary'' itinerary] @ T2 @ [Assign ''experiences'' experiences] @ T3
            @ [Assign ''recommendations'' recommendations] @ T4 @ [Assign ''safety'' safety] @ T5)
    \<and> budget_parts budget_result = Inr (budget, packing)
    \<and> trace s' =
        trace s @ T1 @ [Assign ''itinerary'' itinerary] @ T2 @ [Assign ''experiences'' experiences] @ T3
          @ [Assign ''recommendations'' recommendations] @ T4 @ [Assign ''safety'' safety] @ T5
          @ [Assign ''budget'' budget, Assign ''packing'' packing, StatusUpdate ''complete'', Rerun]
    \<and> results s' = (results s)(''itinerary'' \<mapsto> itinerary, ''experiences'' \<mapsto> experiences,
          ''recommendations'' \<mapsto> recommendations, ''safety'' \<mapsto> safety,
          ''budget'' \<mapsto> budget, ''packing'' \<mapsto> packing)
    \<and> processing s' = False"
proof -
  from assms obtain v1 s1 v2 s2 v3 s3 v4 s4 b s5 bu pa where
    c1: "call (planner_agent ep ui) s = (Inr v1, s1)" and
    c2: "call (experience_agent ep ui) (assign ''itinerary'' v1 s1) = (Inr v2, s2)" and
    c3: "call (recommendation_agent ep ui) (assign ''experiences'' v2 s2) = (Inr v3, s3)" and
    c4: "call (safety_agent ep ui) (assign ''recommendations'' v3 s3) = (Inr v4, s4)" and
    c5: "call (budget_agent ep ui) (assign ''safety'' v4 s4) = (Inr b, s5)" and
    bp: "budget_parts b = Inr (bu, pa)" and
    s': "s' = emit Rerun ((emit (StatusUpdate ''complete'')
                (assign ''packing'' pa (assign ''budget'' bu s5)))\<lparr>processing := False\<rparr>)"
    unfolding try_block_def
    by (auto split: prod.splits sum.splits)
  from call_planner [OF c1] obtain T1 where
    T1: "s1 = s\<lparr>trace := trace s @ T1\<rparr>" "client_segment (planner_prompt ui) T1" by blast
  from call_experience [OF c2] obtain T2 where
    T2: "s2 = (assign ''itinerary'' v1 s1)\<lparr>trace := trace (assign ''itinerary'' v1 s1) @ T2\<rparr>"
      "client_segment (experience_prompt ui) T2" by blast
  from call_recommendation [OF c3] obtain T3 where
    T3: "s3 = (assign ''experiences'' v2 s2)\<lparr>trace := trace (assign ''experiences'' v2 s2) @ T3\<rparr>"
      "client_segment (recommendation_prompt ui) T3" by blast
  from call_safety [OF c4] obtain T4 where
    T4: "s4 = (assign ''recommendations'' v3 s3)\<lparr>trace := trace (assign ''recommendations'' v3 s3) @ T4\<rparr>"
      "client_segment (safety_prompt ui) T4" by blast
  from call_budget [OF c5] obtain T5 where
    T5: "s5 = (assign ''safety'' v4 s4)\<lparr>trace := trace (assign ''safety'' v4 s4) @ T5\<rparr>"
      "client_segment (budget_prompt ui) T5"
      "budget_agent ep ui (trace (assign ''safety'' v4 s4)) = (Inr b, trace (assign ''safety'' v4 s4) @ T5)"
    by blast
  have tr4: "trace (assign ''safety'' v4 s4) =
      trace s @ T1 @ [Assign ''itinerary'' v1] @ T2 @ [Assign ''experiences'' v2] @ T3
        @ [Assign ''recommendations'' v3] @ T4 @ [Assign ''safety'' v4]"
    by (simp add: T1 T2 T3 T4 assign_def emit_def)
  have tr: "trace s' =
      trace s @ T1 @ [Assign ''itinerary'' v1] @ T2 @ [Assign ''experiences'' v2] @ T3
        @ [Assign ''recommendations'' v3] @ T4 @ [Assign ''safety'' v4] @ T5
        @ [Assign ''budget'' bu, Assign ''packing'' pa, StatusUpdate ''complete'', Rerun]"
    by (simp add: s' T1 T2 T3 T4 T5 assign_def emit_def)
  have res: "results s' = (results s)(''itinerary'' \<mapsto> v1, ''experiences'' \<mapsto> v2,
          ''recommendations'' \<mapsto> v3, ''safety'' \<mapsto> v4, ''budget'' \<mapsto> bu, ''packing'' \<mapsto> pa)"
    by (simp add: s' T1 T2 T3 T4 T5 assign_def emit_def)
  have pr: "processing s' = False"
    by (simp add: s' emit_def)
  from T5(3) have ba: "budget_agent ep ui
         (trace s @ T1 @ [Assign ''itinerary'' v1] @ T2 @ [Assign ''experiences'' v2] @ T3
            @ [Assign ''recommendations'' v3] @ T4 @ [Assign ''safety'' v4])
       = (Inr b,
          trace s @ T1 @ [Assign ''itinerary'' v1] @ T2 @ [Assign ''experiences'' v2] @ T3
            @ [Assign ''recommendations'' v3] @ T4 @ [Assign ''safety'' v4] @ T5)"
    by (simp add: tr4)
  from T1(2) T2(2) T3(2) T4(2) T5(2) ba bp tr res pr show ?thesis
    by blast
qed

lemma try_block_failure:
  assumes "try_block ep ui s = (Some e, s')"
  shows "(\<forall>k v. Assign k v \<in> set (new_events s s') \<longrightarrow> results s' k = Some v)
    \<and> dom (results s) \<subseteq> dom (results s')"
proof -
  from assms consider
    (planner) "call (planner_agent ep ui) s = (Inl e, s')"
  | (experience) v1 s1 where
      "call (planner_agent ep ui) s = (Inr v1, s1)"
      "call (experience_agent ep ui) (assign ''itinerary'' v1 s1) = (Inl e, s')"
  | (recommendation) v1 s1 v2 s2 where
      "call (planner_agent ep ui) s = (Inr v1, s1)"
      "call (experience_agent ep ui) (assign ''itinerary'' v1 s1) = (Inr v2, s2)"
      "call (recommendation_agent ep ui) (assign ''experiences'' v2 s2) = (Inl e, s')"
  | (safety) v1 s1 v2 s2 v3 s3 where
      "call (planner_agent ep ui) s = (Inr v1, s1)"
      "call (experience_agent ep ui) (assign ''itinerary'' v1 s1) = (Inr v2, s2)"
      "call (recommendation_agent ep ui) (assign ''experiences'' v2 s2) = (Inr v3, s3)"
      "call (safety_agent ep ui) (assign ''recommendations'' v3 s3) = (Inl e, s')"
  | (budget) v1 s1 v2 s2 v3 s3 v4 s4 where
      "call (planner_agent ep ui) s = (Inr v1, s1)"
      "call (experience_agent ep ui) (assign ''itinerary'' v1 s1) = (Inr v2, s2)"
      "call (recommendation_agent ep ui) (assign ''experiences'' v2 s2) = (Inr v3, s3)"
      "call (safety_agent ep ui) (assign ''recommendations'' v3 s3) = (Inr v4, s4)"
      "call (budget_agent ep ui) (assign ''safety'' v4 s4) = (Inl e, s')"
  | (parts) b where "budget_parts b = Inl e"
    unfolding try_block_def
    by (auto split: prod.splits sum.splits)
  then show ?thesis
  proof cases
    case planner
    from call_planner [OF planner] obtain T1 where
      "s' = s\<lparr>trace := trace s @ T1\<rparr>" "client_segment (planner_prompt ui) T1" by blast
    then show ?thesis
      by (simp add: new_events_def client_segment_no_assign)
  next
    case experience
    from call_planner [OF experience(1)] obtain T1 where
      T1: "s1 = s\<lparr>trace := trace s @ T1\<rparr>" "client_segment (planner_prompt ui) T1" by blast
    from call_experience [OF experience(2)] obtain T2 where
      T2: "s' = (assign ''itinerary'' v1 s1)\<lparr>trace := trace (assign ''itinerary'' v1 s1) @ T2\<rparr>"
        "client_segment (experience_prompt ui) T2" by blast
    from T1(2) T2(2) have na: "\<And>k v. Assign k v \<notin> set T1" "\<And>k v. Assign k v \<notin> set T2"
      by (simp_all add: client_segment_no_assign)
    show ?thesis
      unfolding new_events_def T1(1) T2(1)  assign_def emit_def
      by (auto simp: na)
  next
    case recommendation
    from call_planner [OF recommendation(1)] obtain T1 where
      T1: "s1 = s\<lparr>trace := trace s @ T1\<rparr>" "client_segment (planner_prompt ui) T1" by blast
    from call_experience [OF recommendation(2)] obtain T2 where
      T2: "s2 = (assign ''itinerary'' v1 s1)\<lparr>trace := trace (assign ''itinerary'' v1 s1) @ T2\<rparr>"
        "client_segment (experience_prompt ui) T2" by blast
    from call_recommendation [OF recommendation(3)] obtain T3 where
      T3: "s' = (assign ''experiences'' v2 s2)\<lparr>trace := trace (assign ''experiences'' v2 s2) @ T3\<rparr>"
        "client_segment (recommendation_prompt ui) T3" by blast
    from T1(2) T2(2) T3(2) have na: "\<And>k v. Assign k v \<notin> set T1" "\<And>k v. Assign k v \<notin> set T2" "\<And>k v. Assign k v \<notin> set T3"
      by (simp_all add: client_segment_no_assign)
    show ?thesis
      unfolding new_events_def T1(1) T2(1) T3(1)  assign_def emit_def
      by (auto simp: na)
  next
    case safety
    from call_planner [OF safety(1)] obtain T1 where
      T1: "s1 = s\<lparr>trace := trace s @ T1\<rparr>" "client_segment (planner_prompt ui) T1" by blast
    from call_experience [OF safety(2)] obtain T2 where
      T2: "s2 = (assign ''itinerary'' v1 s1)\<lparr>trace := trace (assign ''itinerary'' v1 s1) @ T2\<rparr>"
        "client_segment (experience_prompt ui) T2" by blast
    from call_recommendation [OF safety(3)] obtain T3 where
      T3: "s3 = (assign ''experiences'' v2 s2)\<lparr>trace := trace (assign ''experiences'' v2 s2) @ T3\<rparr>"
        "client_segment (recommendation_prompt ui) T3" by blast
    from call_safety [OF safety(4)] obtain T4 where
      T4: "s' = (assign ''recommendations'' v3 s3)\<lparr>trace := trace (assign ''recommendations'' v3 s3) @ T4\<rparr>"
        "client_segment (safety_prompt ui) T4" by blast
    from T1(2) T2(2) T3(2) T4(2) have na: "\<And>k v. Assign k v \<notin> set T1" "\<And>k v. Assign k v \<notin> set T2" "\<And>k v. Assign k v \<notin> set T3" "\<And>k v. Assign k v \<notin> set T4"
      by (simp_all add: client_segment_no_assign)
    show ?thesis
      unfolding new_events_def T1(1) T2(1) T3(1) T4(1)  assign_def emit_def
      by (auto simp: na)
  next
    case budget
    from call_planner [OF budget(1)] obtain T1 where
      T1: "s1 = s\<lparr>trace := trace s @ T1\<rparr>" "client_segment (planner_prompt ui) T1" by blast
    from call_experience [OF budget(2)] obtain T2 where
      T2: "s2 = (assign ''itinerary'' v1 s1)\<lparr>trace := trace (assign ''itinerary'' v1 s1) @ T2\<rparr>"
        "client_segment (experience_prompt ui) T2" by blast
    from call_recommendation [OF budget(3)] obtain T3 where
      T3: "s3 = (assign ''experiences'' v2 s2)\<lparr>trace := trace (assign ''experiences'' v2 s2) @ T3\<rparr>"
        "client_segment (recommendation_prompt ui) T3" by blast
    from call_safety [OF budget(4)] obtain T4 where
      T4: "s4 = (assign ''recommendations'' v3 s3)\<lparr>trace := trace (assign ''recommendations'' v3 s3) @ T4\<rparr>"
        "client_segment (safety_prompt ui) T4" by blast
    from call_budget [OF budget(5)] obtain T5 where
      T5: "s' = (assign ''safety'' v4 s4)\<lparr>trace := trace (assign ''safety'' v4 s4) @ T5\<rparr>"
        "client_segment (budget_prompt ui) T5" by blast
    from T1(2) T2(2) T3(2) T4(2) T5(2) have na: "\<And>k v. Assign k v \<notin> set T1" "\<And>k v. Assign k v \<notin> set T2" "\<And>k v. Assign k v \<notin> set T3" "\<And>k v. Assign k v \<notin> set T4" "\<And>k v. Assign k v \<notin> set T5"
      by (simp_all add: client_segment_no_assign)
    show ?thesis
      unfolding new_events_def T1(1) T2(1) T3(1) T4(1) T5(1)  assign_def emit_def
      by (auto simp: na)
  next
    case parts
    with budget_parts_total [of b] show ?thesis by auto
  qed
qed

lemma try_block_itinerary:
  assumes "planner_agent ep ui (trace s) = (Inr v, tr)" and "try_block ep ui s = (out, s')"
  shows "results s' ''itinerary'' = Some v"
  using assms unfolding try_block_def
  by (auto simp: call_def assign_def emit_def split: prod.splits sum.splits)

lemma handler_results: "results (except_handler e s) = results s"
  by (simp add: except_handler_def emit_def)

lemma kickoff_first:
  "\<exists>T. snd (kickoff ex (t # ts) n tr) = tr @ Execute (description t) # T"
proof -
  have "\<exists>T. snd (kickoff ex ts n tr) = tr @ T" for ts n tr
  proof (induction ts arbitrary: n tr)
    case Nil
    then show ?case by simp
  next
    case (Cons t ts)
    from Cons [of "Suc n" "tr @ [Execute (description t)]"] show ?case
      by (auto split: sum.splits prod.splits)
  qed
  from this [of ts "Suc n" "tr @ [Execute (description t)]"] show ?thesis
    by (auto split: sum.splits prod.splits)
qed

lemma kickoff_raises:
  assumes "j < length ts"
    and "\<forall>i<j. \<exists>out. ex (n + i) (ts ! i) = Inr out"
    and "ex (n + j) (ts ! j) = Inl e"
  shows "fst (kickoff ex ts n tr) = Inl e"
  using assms
proof (induction ts arbitrary: n j tr)
  case Nil
  then show ?case by simp
next
  case (Cons t ts)
  show ?case
  proof (cases j)
    case 0
    with Cons.prems(3) show ?thesis by simp
  next
    case (Suc j')
    from Cons.prems(2) Suc obtain out where out: "ex n t = Inr out"
      by fastforce
    have later: "\<forall>i<j'. \<exists>out. ex (Suc n + i) (ts ! i) = Inr out"
    proof (intro allI impI)
      fix i assume "i < j'"
      with Suc have "Suc i < j" by simp
      with Cons.prems(2) obtain out where "ex (n + Suc i) ((t # ts) ! Suc i) = Inr out"
        by blast
      then show "\<exists>out. ex (Suc n + i) (ts ! i) = Inr out" by simp
    qed
    from Cons.prems(1,3) Suc have "j' < length ts" "ex (Suc n + j') (ts ! j') = Inl e"
      by simp_all
    from Cons.IH [OF this(1) later this(2)]
    have "fst (kickoff ex ts (Suc n) (tr @ [Execute (description t)])) = Inl e" .
    with out show ?thesis
      by (auto split: prod.splits sum.splits)
  qed
qed

lemma crew_failure_results:
  assumes "processing s" and "j < 5"
    and "\<forall>i<j. \<exists>out. ex i (crew_tasks model ui ! i) = Inr out"
    and "ex j (crew_tasks model ui ! j) = Inl e"
  shows "results (processing_crew ex model ui s) = [''error'' \<mapsto> ''Failed to generate plan: '' @ str_exn e]"
proof -
  obtain t1 t2 t3 t4 t5 where ts: "create_tasks ui (create_agents model) = (t1, t2, t3, t4, t5)"
    by (metis prod_cases5)
  then have ct: "crew_tasks model ui = [t1, t2, t3, t4, t5]"
    by (simp add: crew_tasks_def)
  from assms(2) have len: "j < length [t1, t2, t3, t4, t5]" by simp
  from assms(3,4) have "\<forall>i<j. \<exists>out. ex (0 + i) ([t1, t2, t3, t4, t5] ! i) = Inr out"
    and "ex (0 + j) ([t1, t2, t3, t4, t5] ! j) = Inl e"
    by (simp_all add: ct)
  from kickoff_raises [OF len this] have "fst (kickoff ex [t1, t2, t3, t4, t5] 0 (trace s)) = Inl e" .
  then obtain tr where "kickoff ex [t1, t2, t3, t4, t5] 0 (trace s) = (Inl e, tr)"
    by (cases "kickoff ex [t1, t2, t3, t4, t5] 0 (trace s)") simp
  with ts assms(1) show ?thesis
    by (simp add: processing_crew_def try_crew_def except_crew_def)
qed

section \<open>The client: retries, backoff and error values\<close>

text \<open>
  C1, as stated, fails: after three transient failures the client returns normally, and
  its value is the one a successful reply with the same text gives. The processing
  block stores that text as the itinerary and goes on to report the plan as complete.
\<close>

theorem exhausted_counterexample:
  "\<not> isl (fst (query_llama always_times_out ''p'' 3 []))
   \<and> fst (query_llama always_times_out ''p'' 3 [])
       = fst (query_llama (\<lambda>p n. Json (Some ''Error: LLM request failed after 3 attempts'')) ''p'' 3 [])
   \<and> results (processing_block always_times_out sample_request fresh_session) ''itinerary''
       = Some ''Error: LLM request failed after 3 attempts''
   \<and> StatusUpdate ''complete'' \<in> set (trace (processing_block always_times_out sample_request fresh_session))"
  by (simp add: query_llama_def posts_def upt_conv_Cons always_times_out_def str_int_def
      str_nat.simps digit_char_def processing_block_def try_block_def call_def assign_def emit_def
      planner_agent_def experience_agent_def recommendation_agent_def safety_agent_def
      budget_agent_def budget_parts_def str_contains_def starts_with_def fresh_session_def)

text \<open>
  C1, amended. With a bound \<open>N \<ge> 1\<close>, when all \<open>N\<close> requests raise
  \<open>RequestException\<close> the client returns, after exactly \<open>N\<close> requests, the string
  \<open>Error: LLM request failed after N attempts\<close>. It carries the attempt count, but it
  is an ordinary return value of the type of model output: an endpoint that answers
  with this text gives the same value. The processing block stores it under the
  stage's key as it stores model output (shown for the first stage).
\<close>

theorem exhausted_returns_text:
  assumes "1 \<le> N"
    and "\<forall>i<nat N. \<exists>m. ep prompt (posts tr + i) = RequestException m"
  shows "fst (query_llama ep prompt N tr)
      = Inr (''Error: LLM request failed after '' @ str_int N @ '' attempts'')
    \<and> posts (snd (query_llama ep prompt N tr)) = posts tr + nat N
    \<and> (\<forall>ep'. ep' prompt (posts tr)
            = Json (Some (''Error: LLM request failed after '' @ str_int N @ '' attempts'')) \<longrightarrow>
          fst (query_llama ep' prompt N tr) = fst (query_llama ep prompt N tr))
    \<and> (N = 3 \<and> prompt = planner_prompt ui \<and> tr = trace s \<and> processing s \<longrightarrow>
          results (processing_block ep ui s) ''itinerary''
            = Some (''Error: LLM request failed after '' @ str_int N @ '' attempts''))"
proof -
  let ?text = "''Error: LLM request failed after '' @ str_int N @ '' attempts''"
  have q: "query_llama ep prompt N tr = (Inr ?text, tr @ backoff prompt [0..<nat N - 1] @ [Post prompt])"
    using assms query_llama_all_fail [of N ep prompt tr] by simp
  have n: "posts (snd (query_llama ep prompt N tr)) = posts tr + nat N"
  proof -
    have "posts [Post prompt] = 1"
      by (simp add: posts_def)
    with assms(1) show ?thesis
      by (simp add: q posts_append posts_backoff)
  qed
  have same: "fst (query_llama ep' prompt N tr) = fst (query_llama ep prompt N tr)"
    if "ep' prompt (posts tr) = Json (Some ?text)" for ep'
    using that assms(1) query_llama_success [of 0 N ep' prompt tr ?text] by (simp add: q)
  have stored: "results (processing_block ep ui s) ''itinerary'' = Some ?text"
    if "N = 3 \<and> prompt = planner_prompt ui \<and> tr = trace s \<and> processing s"
  proof -
    from that q have p: "planner_agent ep ui (trace s) =
        (Inr ?text, tr @ backoff prompt [0..<nat N - 1] @ [Post prompt])"
      by (simp add: planner_agent_def)
    obtain out s' where t: "try_block ep ui s = (out, s')"
      by (cases "try_block ep ui s")
    from try_block_itinerary [OF p t] have "results s' ''itinerary'' = Some ?text" .
    with that t show ?thesis
      by (cases out) (simp_all add: processing_block_def handler_results)
  qed
  from q n same stored show ?thesis
    by simp
qed

theorem exhausted_returns_text_witness:
  "fst (query_llama always_times_out ''p'' 3 []) = Inr ''Error: LLM request failed after 3 attempts''
   \<and> posts (snd (query_llama always_times_out ''p'' 3 [])) = 3"
  using exhausted_returns_text [of 3 always_times_out "''p''" "[]"]
  by (simp add: always_times_out_def posts_def str_int_def str_nat.simps digit_char_def)

text \<open>
  C3. With a bound \<open>N \<ge> 1\<close>: if the first \<open>k < N\<close> requests raise
  \<open>RequestException\<close> and the next one answers with a text, the client returns that
  text after exactly \<open>k + 1\<close> requests, having slept \<open>2 ^ i\<close> seconds after failed
  attempt \<open>i\<close> (the base unit is one second), \<open>2 ^ 0 + \<dots> + 2 ^ (k - 1)\<close> in all.
  If all \<open>N\<close> requests raise, it posts exactly \<open>N\<close> times, and the last effect is the
  last request: there is no sleep after it.
\<close>

theorem query_llama_backoff:
  assumes "1 \<le> N"
  shows "(int k < N \<and> (\<forall>i<k. \<exists>m. ep prompt (posts tr + i) = RequestException m)
            \<and> ep prompt (posts tr + k) = Json (Some text) \<longrightarrow>
          query_llama ep prompt N tr =
            (Inr text, tr @ concat (map (\<lambda>i. [Post prompt, Sleep (2 ^ i)]) [0..<k]) @ [Post prompt])
          \<and> posts (snd (query_llama ep prompt N tr)) = posts tr + (k + 1)
          \<and> sleeps (snd (query_llama ep prompt N tr)) = sleeps tr @ map (\<lambda>i. 2 ^ i) [0..<k]
          \<and> sum_list (sleeps (snd (query_llama ep prompt N tr))) = sum_list (sleeps tr) + (\<Sum>i<k. 2 ^ i))
       \<and> ((\<forall>i<nat N. \<exists>m. ep prompt (posts tr + i) = RequestException m) \<longrightarrow>
          snd (query_llama ep prompt N tr) =
            tr @ concat (map (\<lambda>i. [Post prompt, Sleep (2 ^ i)]) [0..<nat N - 1]) @ [Post prompt]
          \<and> posts (snd (query_llama ep prompt N tr)) = posts tr + nat N
          \<and> sleeps (snd (query_llama ep prompt N tr)) = sleeps tr @ map (\<lambda>i. 2 ^ i) [0..<nat N - 1])"
proof -
  have b: "concat (map (\<lambda>i. [Post prompt, Sleep (2 ^ i)]) as) = backoff prompt as" for as
    by (simp add: backoff_def wait_time_def)
  have w: "map (\<lambda>i. 2 ^ i) as = map wait_time as" for as
    by (simp add: wait_time_def)
  have p1: "posts [Post prompt] = 1" and s1: "sleeps [Post prompt] = []"
    by (simp_all add: posts_def)
  have first: "query_llama ep prompt N tr =
            (Inr text, tr @ concat (map (\<lambda>i. [Post prompt, Sleep (2 ^ i)]) [0..<k]) @ [Post prompt])
          \<and> posts (snd (query_llama ep prompt N tr)) = posts tr + (k + 1)
          \<and> sleeps (snd (query_llama ep prompt N tr)) = sleeps tr @ map (\<lambda>i. 2 ^ i) [0..<k]
          \<and> sum_list (sleeps (snd (query_llama ep prompt N tr))) = sum_list (sleeps tr) + (\<Sum>i<k. 2 ^ i)"
    if "int k < N \<and> (\<forall>i<k. \<exists>m. ep prompt (posts tr + i) = RequestException m)
            \<and> ep prompt (posts tr + k) = Json (Some text)"
    using that query_llama_success [of k N ep prompt tr "text"]
    by (simp add: b w posts_append sleeps_append posts_backoff sleeps_backoff p1 s1 sum_wait_time)
  have second: "snd (query_llama ep prompt N tr) =
            tr @ concat (map (\<lambda>i. [Post prompt, Sleep (2 ^ i)]) [0..<nat N - 1]) @ [Post prompt]
          \<and> posts (snd (query_llama ep prompt N tr)) = posts tr + nat N
          \<and> sleeps (snd (query_llama ep prompt N tr)) = sleeps tr @ map (\<lambda>i. 2 ^ i) [0..<nat N - 1]"
    if "\<forall>i<nat N. \<exists>m. ep prompt (posts tr + i) = RequestException m"
    using assms that query_llama_all_fail [of N ep prompt tr]
    by (simp add: b w posts_append sleeps_append posts_backoff sleeps_backoff p1 s1)
  show ?thesis
  proof (rule conjI)
    show "int k < N \<and> (\<forall>i<k. \<exists>m. ep prompt (posts tr + i) = RequestException m)
            \<and> ep prompt (posts tr + k) = Json (Some text) \<longrightarrow>
          query_llama ep prompt N tr =
            (Inr text, tr @ concat (map (\<lambda>i. [Post prompt, Sleep (2 ^ i)]) [0..<k]) @ [Post prompt])
          \<and> posts (snd (query_llama ep prompt N tr)) = posts tr + (k + 1)
          \<and> sleeps (snd (query_llama ep prompt N tr)) = sleeps tr @ map (\<lambda>i. 2 ^ i) [0..<k]
          \<and> sum_list (sleeps (snd (query_llama ep prompt N tr))) = sum_list (sleeps tr) + (\<Sum>i<k. 2 ^ i)"
      by (rule impI) (rule first)
    show "(\<forall>i<nat N. \<exists>m. ep prompt (posts tr + i) = RequestException m) \<longrightarrow>
          snd (query_llama ep prompt N tr) =
            tr @ concat (map (\<lambda>i. [Post prompt, Sleep (2 ^ i)]) [0..<nat N - 1]) @ [Post prompt]
          \<and> posts (snd (query_llama ep prompt N tr)) = posts tr + nat N
          \<and> sleeps (snd (query_llama ep prompt N tr)) = sleeps tr @ map (\<lambda>i. 2 ^ i) [0..<nat N - 1]"
      by (rule impI) (rule second)
  qed
qed

theorem query_llama_backoff_witness:
  "(1::int) \<le> 3 \<and> int 2 < 3
   \<and> (\<lambda>p n. if n < 2 then RequestException ''timeout'' else Json (Some ''plan'')) ''p'' (posts [] + 2) = Json (Some ''plan'')
   \<and> query_llama (\<lambda>p n. if n < 2 then RequestException ''timeout'' else Json (Some ''plan'')) ''p'' 3 []
       = (Inr ''plan'', [Post ''p'', Sleep 1, Post ''p'', Sleep 2, Post ''p''])
   \<and> snd (query_llama (\<lambda>p n. RequestException ''timeout'') ''p'' 3 [])
       = [Post ''p'', Sleep 1, Post ''p'', Sleep 2, Post ''p'']"
proof -
  have N: "(1::int) \<le> 3" by simp
  have up: "[0..<2] = [0, Suc 0]" "[0..<nat 3 - 1] = [0, Suc 0]"
    by (simp_all add: upt_conv_Cons)
  show ?thesis
    using query_llama_backoff [OF N, of 2 "\<lambda>p n. if n < 2 then RequestException ''timeout'' else Json (Some ''plan'')" "''p''" "[]" "''plan''"]
      query_llama_backoff [OF N, of 0 "\<lambda>p n. RequestException ''timeout''" "''p''" "[]" "''plan''"]
    by (simp add: posts_def up)
qed

text \<open>
  C4, as stated, fails: a body without the \<open>response\<close> key does not make the client
  fail with a typed error. The call returns normally, and its value is the one a
  successful reply with the same text gives.
\<close>

theorem malformed_reply_counterexample:
  "\<not> isl (fst (query_llama (\<lambda>p n. Json None) ''p'' 3 []))
   \<and> fst (query_llama (\<lambda>p n. Json None) ''p'' 3 [])
       = fst (query_llama (\<lambda>p n. Json (Some ''Error: Invalid response format from LLM'')) ''p'' 3 [])"
  by (simp add: query_llama_def posts_def upt_conv_Cons)

text \<open>
  C4, amended. With a bound \<open>N \<ge> 1\<close>, if the first reply is a parsed body without
  the \<open>response\<close> key, the client returns at once, after exactly one request and
  without sleeping or retrying; what it returns is the ordinary string
  \<open>Error: Invalid response format from LLM\<close>, not a typed error.
\<close>

theorem query_llama_malformed_immediate:
  assumes "1 \<le> N" and "ep prompt (posts tr) = Json None"
  shows "query_llama ep prompt N tr =
    (Inr ''Error: Invalid response format from LLM'', tr @ [Post prompt])"
  using assms query_llama_malformed [of 0 N ep prompt tr] by (simp add: backoff_def)

theorem query_llama_malformed_immediate_witness:
  "query_llama (\<lambda>p n. if n = 0 then Json None else Json (Some ''late'')) ''p'' 3 []
     = (Inr ''Error: Invalid response format from LLM'', [Post ''p''])"
  using query_llama_malformed_immediate [of 3 "\<lambda>p n. if n = 0 then Json None else Json (Some ''late'')" "''p''" "[]"]
  by (simp add: posts_def)

section \<open>The split of the budget output\<close>

text \<open>
  C5, as stated, fails in both variants: travel\_crew also trims the leading whitespace
  of the budget section, and travel\_assistant trims nothing.
\<close>

theorem budget_section_counterexample:
  "extract_packing '' Total: 100 # Packing List: socks'' = Inr (''Total: 100'', ''# Packing List: socks'')
   \<and> claimed_budget_section '' Total: 100 # Packing List: socks'' = '' Total: 100''
   \<and> budget_parts ''Total: 100 # Packing List: socks'' = Inr (''Total: 100 '', ''# Packing List: socks'')
   \<and> claimed_budget_section ''Total: 100 # Packing List: socks'' = ''Total: 100''"
  by (simp add: extract_packing_def budget_parts_def claimed_budget_section_def str_contains_def
      str_split_once_def str_split.simps packing_list_marker_def starts_with_def
      str_strip_def str_lstrip_def str_rstrip_def isspace_def)

text \<open>
  C5, amended. When the marker occurs, the split is at its first occurrence, at index
  \<open>i\<close>. In travel\_crew the budget section is everything before the marker, trimmed of
  leading and trailing whitespace; the packing section begins with the marker, and when
  the text after the marker does not begin with whitespace it is the marker
  concatenated with everything after it, trimmed. What travel\_crew returns when
  whitespace follows the marker is not part of the statement. In travel\_assistant
  nothing is trimmed: the budget section is everything before the marker, and when the
  marker does not occur again the packing section is the marker followed by everything
  after it.
\<close>

theorem split_at_first_marker:
  assumes "str_find packing_list_marker combined = Some i"
  shows "combined = take i combined @ packing_list_marker @ drop (i + length packing_list_marker) combined
    \<and> (\<forall>j<i. \<not> starts_with packing_list_marker (drop j combined))
    \<and> (\<exists>tail. extract_packing combined =
          Inr (str_strip (take i combined), packing_list_marker @ tail))
    \<and> (str_lstrip (drop (i + length packing_list_marker) combined)
          = drop (i + length packing_list_marker) combined \<longrightarrow>
        extract_packing combined =
          Inr (str_strip (take i combined),
               str_strip (packing_list_marker @ drop (i + length packing_list_marker) combined))
        \<and> str_strip (packing_list_marker @ drop (i + length packing_list_marker) combined)
            = packing_list_marker @ str_rstrip (drop (i + length packing_list_marker) combined))
    \<and> (\<exists>packing. budget_parts combined = Inr (take i combined, packing))
    \<and> (\<not> str_contains packing_list_marker (drop (i + length packing_list_marker) combined) \<longrightarrow>
        budget_parts combined =
          Inr (take i combined, packing_list_marker @ drop (i + length packing_list_marker) combined))"
proof -
  let ?rest = "drop (i + length packing_list_marker) combined"
  from assms have f: "str_find ''# Packing List'' combined = Some i"
    by (simp add: packing_list_marker_def)
  have single: "budget_parts combined = Inr (take i combined, packing_list_marker @ ?rest)"
    if "\<not> str_contains packing_list_marker ?rest"
  proof -
    from that have "str_split ''# Packing List'' (drop (i + length ''# Packing List'') combined)
        = [drop (i + length ''# Packing List'') combined]"
      by (intro str_split_none) (simp add: str_contains_def packing_list_marker_def)
    then show ?thesis
      by (simp only: budget_parts_marker [OF f] packing_list_marker_def list.sel)
  qed
  have crew: "extract_packing combined =
      Inr (str_strip (take i combined), packing_list_marker @ str_strip ?rest)"
    by (rule extract_packing_marker [OF assms])
  have clean: "extract_packing combined =
          Inr (str_strip (take i combined), str_strip (packing_list_marker @ ?rest))
        \<and> str_strip (packing_list_marker @ ?rest) = packing_list_marker @ str_rstrip ?rest"
    if "str_lstrip ?rest = ?rest"
  proof -
    from that have "str_strip ?rest = str_rstrip ?rest"
      by (simp add: str_strip_def)
    with crew strip_marker_rest [OF that] show ?thesis by simp
  qed
  from crew have starts: "\<exists>tail. extract_packing combined =
          Inr (str_strip (take i combined), packing_list_marker @ tail)"
    by blast
  from single clean starts show ?thesis
    using str_find_split [OF assms] str_find_first [OF assms] budget_parts_marker [OF f]
    by blast
qed

theorem split_at_first_marker_witness:
  "str_find packing_list_marker ''Total: 100 # Packing List: socks '' = Some 11
   \<and> extract_packing ''Total: 100 # Packing List: socks '' = Inr (''Total: 100'', ''# Packing List: socks'')
   \<and> budget_parts ''Total: 100 # Packing List: socks '' = Inr (''Total: 100 '', ''# Packing List: socks '')"
proof -
  have f: "str_find packing_list_marker ''Total: 100 # Packing List: socks '' = Some 11"
    by (simp add: packing_list_marker_def starts_with_def)
  have n: "\<not> str_contains packing_list_marker
      (drop (11 + length packing_list_marker) ''Total: 100 # Packing List: socks '')"
    by (simp add: packing_list_marker_def str_contains_def starts_with_def)
  have l: "str_lstrip (drop (11 + length packing_list_marker) ''Total: 100 # Packing List: socks '')
      = drop (11 + length packing_list_marker) ''Total: 100 # Packing List: socks ''"
    by (simp add: packing_list_marker_def str_lstrip_def isspace_def)
  show ?thesis
    using f n l split_at_first_marker [OF f]
    by (simp add: packing_list_marker_def str_strip_def str_lstrip_def str_rstrip_def isspace_def)
qed

text \<open>
  C6 holds in travel\_crew and, in travel\_assistant, for an output without the words
  \<open>Packing List\<close>.
\<close>

lemma missing_marker_placeholder:
  "\<not> str_contains packing_list_marker raw \<Longrightarrow>
     extract_packing raw = Inr (raw, ''Packing list section not found in budget output.'')"
  "\<not> str_contains ''Packing List'' raw \<Longrightarrow>
     budget_parts raw = Inr (raw, ''Packing list not generated'')"
  by (simp_all add: extract_packing_absent budget_parts_absent)

text \<open>
  C6 fails in travel\_assistant on an output that has the words \<open>Packing List\<close>
  without the heading marker: the packing section is then the empty string, not the
  placeholder.
\<close>

theorem missing_marker_empty_packing:
  "\<not> str_contains ''# Packing List'' ''Total: 100\<newline>Packing List: socks''
   \<and> budget_parts ''Total: 100\<newline>Packing List: socks'' = Inr (''Total: 100\<newline>Packing List: socks'', [])
   \<and> extract_packing ''Total: 100\<newline>Packing List: socks''
       = Inr (''Total: 100\<newline>Packing List: socks'', ''Packing list section not found in budget output.'')"
  by (simp add: budget_parts_def extract_packing_def str_contains_def str_split.simps
      packing_list_marker_def starts_with_def)

text \<open>
  C10. In travel\_assistant, for a budget output that contains \<open>Packing List\<close> but
  not \<open># Packing List\<close>, the split on \<open># Packing List\<close> has a single part; in a
  run in which the budget stage returns such an output, the processing block sets the
  \<open>budget\<close> key to the whole output and the \<open>packing\<close> key to the empty string:
  neither the placeholder nor any packing content.
\<close>

theorem budget_parts_mismatched_markers:
  assumes "str_contains ''Packing List'' budget_result"
    and "\<not> str_contains ''# Packing List'' budget_result"
  shows "str_split ''# Packing List'' budget_result = [budget_result]
    \<and> budget_parts budget_result = Inr (budget_result, [])
    \<and> budget_parts budget_result \<noteq> Inr (budget_result, ''Packing list not generated'')
    \<and> (processing s
        \<and> planner_agent ep ui (trace s) = (Inr v1, tr1)
        \<and> experience_agent ep ui (tr1 @ [Assign ''itinerary'' v1]) = (Inr v2, tr2)
        \<and> recommendation_agent ep ui (tr2 @ [Assign ''experiences'' v2]) = (Inr v3, tr3)
        \<and> safety_agent ep ui (tr3 @ [Assign ''recommendations'' v3]) = (Inr v4, tr4)
        \<and> budget_agent ep ui (tr4 @ [Assign ''safety'' v4]) = (Inr budget_result, tr5) \<longrightarrow>
        results (processing_block ep ui s) ''budget'' = Some budget_result
        \<and> results (processing_block ep ui s) ''packing'' = Some []
        \<and> results (processing_block ep ui s) ''packing'' \<noteq> Some ''Packing list not generated''
        \<and> trace (processing_block ep ui s) =
            tr5 @ [Assign ''budget'' budget_result, Assign ''packing'' [],
                   StatusUpdate ''complete'', Rerun])"
proof -
  have parts: "budget_parts budget_result = Inr (budget_result, [])"
    using assms by (rule budget_parts_single)
  have run: "results (processing_block ep ui s) ''budget'' = Some budget_result
        \<and> results (processing_block ep ui s) ''packing'' = Some []
        \<and> results (processing_block ep ui s) ''packing'' \<noteq> Some ''Packing list not generated''
        \<and> trace (processing_block ep ui s) =
            tr5 @ [Assign ''budget'' budget_result, Assign ''packing'' [],
                   StatusUpdate ''complete'', Rerun]"
    if "processing s
        \<and> planner_agent ep ui (trace s) = (Inr v1, tr1)
        \<and> experience_agent ep ui (tr1 @ [Assign ''itinerary'' v1]) = (Inr v2, tr2)
        \<and> recommendation_agent ep ui (tr2 @ [Assign ''experiences'' v2]) = (Inr v3, tr3)
        \<and> safety_agent ep ui (tr3 @ [Assign ''recommendations'' v3]) = (Inr v4, tr4)
        \<and> budget_agent ep ui (tr4 @ [Assign ''safety'' v4]) = (Inr budget_result, tr5)"
    using that
    by (simp add: processing_block_def try_block_def call_def assign_def emit_def parts)
  from assms parts run show ?thesis
    by (simp add: str_split_none str_contains_def)
qed

theorem budget_parts_mismatched_markers_witness:
  "str_contains ''Packing List'' ''Packing List: socks''
   \<and> \<not> str_contains ''# Packing List'' ''Packing List: socks''
   \<and> budget_parts ''Packing List: socks'' = Inr (''Packing List: socks'', [])
   \<and> processing fresh_session
   \<and> results (processing_block answers_without_heading sample_request fresh_session) ''budget''
       = Some ''Packing List: socks''
   \<and> results (processing_block answers_without_heading sample_request fresh_session) ''packing''
       = Some []"
proof -
  have a: "str_contains ''Packing List'' ''Packing List: socks''"
    by (simp add: str_contains_def starts_with_def)
  have b: "\<not> str_contains ''# Packing List'' ''Packing List: socks''"
    by (simp add: str_contains_def starts_with_def)
  have p: "processing fresh_session"
    by (simp add: fresh_session_def)
  note q = query_llama_def posts_def upt_conv_Cons answers_without_heading_def
  have c1: "planner_agent answers_without_heading sample_request (trace fresh_session)
      = (Inr ''Packing List: socks'', [Post (planner_prompt sample_request)])"
    by (simp add: planner_agent_def q fresh_session_def)
  have c2: "experience_agent answers_without_heading sample_request
        ([Post (planner_prompt sample_request)] @ [Assign ''itinerary'' ''Packing List: socks''])
      = (Inr ''Packing List: socks'',
         [Post (planner_prompt sample_request), Assign ''itinerary'' ''Packing List: socks'',
          Post (experience_prompt sample_request)])"
    by (simp add: experience_agent_def q)
  have c3: "recommendation_agent answers_without_heading sample_request
        ([Post (planner_prompt sample_request), Assign ''itinerary'' ''Packing List: socks'',
          Post (experience_prompt sample_request)] @ [Assign ''experiences'' ''Packing List: socks''])
      = (Inr ''Packing List: socks'',
         [Post (planner_prompt sample_request), Assign ''itinerary'' ''Packing List: socks'',
          Post (experience_prompt sample_request), Assign ''experiences'' ''Packing List: socks'',
          Post (recommendation_prompt sample_request)])"
    by (simp add: recommendation_agent_def q)
  have c4: "safety_agent answers_without_heading sample_request
        ([Post (planner_prompt sample_request), Assign ''itinerary'' ''Packing List: socks'',
          Post (experience_prompt sample_request), Assign ''experiences'' ''Packing List: socks'',
          Post (recommendation_prompt sample_request)] @ [Assign ''recommendations'' ''Packing List: socks''])
      = (Inr ''Packing List: socks'',
         [Post (planner_prompt sample_request), Assign ''itinerary'' ''Packing List: socks'',
          Post (experience_prompt sample_request), Assign ''experiences'' ''Packing List: socks'',
          Post (recommendation_prompt sample_request), Assign ''recommendations'' ''Packing List: socks'',
          Post (safety_prompt sample_request)])"
    by (simp add: safety_agent_def q)
  have c5: "budget_agent answers_without_heading sample_request
        ([Post (planner_prompt sample_request), Assign ''itinerary'' ''Packing List: socks'',
          Post (experience_prompt sample_request), Assign ''experiences'' ''Packing List: socks'',
          Post (recommendation_prompt sample_request), Assign ''recommendations'' ''Packing List: socks'',
          Post (safety_prompt sample_request)] @ [Assign ''safety'' ''Packing List: socks''])
      = (Inr ''Packing List: socks'',
         [Post (planner_prompt sample_request), Assign ''itinerary'' ''Packing List: socks'',
          Post (experience_prompt sample_request), Assign ''experiences'' ''Packing List: socks'',
          Post (recommendation_prompt sample_request), Assign ''recommendations'' ''Packing List: socks'',
          Post (safety_prompt sample_request), Assign ''safety'' ''Packing List: socks'',
          Post (budget_prompt sample_request)])"
    by (simp add: budget_agent_def q)
  from budget_parts_mismatched_markers [OF a b, of fresh_session answers_without_heading sample_request,
      THEN conjunct2, THEN conjunct2, THEN conjunct2, rule_format, OF conjI [OF p conjI [OF c1 conjI [OF c2 conjI [OF c3 conjI [OF c4 c5]]]]]]
    budget_parts_mismatched_markers [OF a b]
  show ?thesis
    using a b p by simp
qed

section \<open>The pipelines: failure policy, validation and order\<close>

text \<open>
  C2. After a failure in the middle of the pipeline, travel\_assistant keeps in
  \<open>results\<close> every stage result completed before the failure: whichever stage raises,
  the dictionary after the handler is the initial one with the outputs of all earlier
  stages written under their keys, and nothing written during the run is lost.
  travel\_crew, whichever task raises and however many completed before it, replaces the
  dictionary by one that holds only the error descriptor. On the run in which the first
  two stages complete and the third raises, the first variant keeps both results and
  the second keeps nothing but the error.
\<close>

theorem failure_policies_differ:
  assumes "processing s"
  shows "(planner_agent ep ui (trace s) = (Inl e, tr1) \<longrightarrow>
        results (processing_block ep ui s) = results s)
    \<and> (planner_agent ep ui (trace s) = (Inr v1, tr1)
        \<and> experience_agent ep ui (tr1 @ [Assign ''itinerary'' v1]) = (Inl e, tr2) \<longrightarrow>
        results (processing_block ep ui s) = (results s)(''itinerary'' \<mapsto> v1))
    \<and> (planner_agent ep ui (trace s) = (Inr v1, tr1)
        \<and> experience_agent ep ui (tr1 @ [Assign ''itinerary'' v1]) = (Inr v2, tr2)
        \<and> recommendation_agent ep ui (tr2 @ [Assign ''experiences'' v2]) = (Inl e, tr3) \<longrightarrow>
        results (processing_block ep ui s)
          = (results s)(''itinerary'' \<mapsto> v1, ''experiences'' \<mapsto> v2))
    \<and> (planner_agent ep ui (trace s) = (Inr v1, tr1)
        \<and> experience_agent ep ui (tr1 @ [Assign ''itinerary'' v1]) = (Inr v2, tr2)
        \<and> recommendation_agent ep ui (tr2 @ [Assign ''experiences'' v2]) = (Inr v3, tr3)
        \<and> safety_agent ep ui (tr3 @ [Assign ''recommendations'' v3]) = (Inl e, tr4) \<longrightarrow>
        results (processing_block ep ui s)
          = (results s)(''itinerary'' \<mapsto> v1, ''experiences'' \<mapsto> v2, ''recommendations'' \<mapsto> v3))
    \<and> (planner_agent ep ui (trace s) = (Inr v1, tr1)
        \<and> experience_agent ep ui (tr1 @ [Assign ''itinerary'' v1]) = (Inr v2, tr2)
        \<and> recommendation_agent ep ui (tr2 @ [Assign ''experiences'' v2]) = (Inr v3, tr3)
        \<and> safety_agent ep ui (tr3 @ [Assign ''recommendations'' v3]) = (Inr v4, tr4)
        \<and> budget_agent ep ui (tr4 @ [Assign ''safety'' v4]) = (Inl e, tr5) \<longrightarrow>
        results (processing_block ep ui s)
          = (results s)(''itinerary'' \<mapsto> v1, ''experiences'' \<mapsto> v2, ''recommendations'' \<mapsto> v3,
                        ''safety'' \<mapsto> v4))
    \<and> (try_block ep ui s = (Some e, s') \<longrightarrow>
        results (processing_block ep ui s) = results s'
        \<and> (\<forall>k v. Assign k v \<in> set (new_events s s') \<longrightarrow>
              results (processing_block ep ui s) k = Some v))
    \<and> (j < 5 \<and> (\<forall>i<j. \<exists>out. ex i (crew_tasks model ui ! i) = Inr out)
        \<and> ex j (crew_tasks model ui ! j) = Inl e' \<longrightarrow>
        results (processing_crew ex model ui s)
          = [''error'' \<mapsto> ''Failed to generate plan: '' @ str_exn e'])
    \<and> (try_crew ex model ui s = (Some e', c') \<longrightarrow>
        results (processing_crew ex model ui s)
          = [''error'' \<mapsto> ''Failed to generate plan: '' @ str_exn e'])
    \<and> results (processing_block third_stage_raises sample_request fresh_session)
        = [''itinerary'' \<mapsto> ''Day 1: Louvre'', ''experiences'' \<mapsto> ''Seine cruise'']
    \<and> results (processing_crew third_task_raises ''ollama/llama3.2:latest'' sample_request fresh_session)
        = [''error'' \<mapsto> ''Failed to generate plan: boom'']"
proof -
  note defs = processing_block_def try_block_def call_def assign_def emit_def except_handler_def
  have a1: "results (processing_block ep ui s) = results s"
    if "planner_agent ep ui (trace s) = (Inl e, tr1)"
    using that assms by (simp add: defs)
  have a2: "results (processing_block ep ui s) = (results s)(''itinerary'' \<mapsto> v1)"
    if "planner_agent ep ui (trace s) = (Inr v1, tr1)
        \<and> experience_agent ep ui (tr1 @ [Assign ''itinerary'' v1]) = (Inl e, tr2)"
    using that assms by (simp add: defs)
  have a3: "results (processing_block ep ui s)
          = (results s)(''itinerary'' \<mapsto> v1, ''experiences'' \<mapsto> v2)"
    if "planner_agent ep ui (trace s) = (Inr v1, tr1)
        \<and> experience_agent ep ui (tr1 @ [Assign ''itinerary'' v1]) = (Inr v2, tr2)
        \<and> recommendation_agent ep ui (tr2 @ [Assign ''experiences'' v2]) = (Inl e, tr3)"
    using that assms by (simp add: defs)
  have a4: "results (processing_block ep ui s)
          = (results s)(''itinerary'' \<mapsto> v1, ''experiences'' \<mapsto> v2, ''recommendations'' \<mapsto> v3)"
    if "planner_agent ep ui (trace s) = (Inr v1, tr1)
        \<and> experience_agent ep ui (tr1 @ [Assign ''itinerary'' v1]) = (Inr v2, tr2)
        \<and> recommendation_agent ep ui (tr2 @ [Assign ''experiences'' v2]) = (Inr v3, tr3)
        \<and> safety_agent ep ui (tr3 @ [Assign ''recommendations'' v3]) = (Inl e, tr4)"
    using that assms by (simp add: defs)
  have a5: "results (processing_block ep ui s)
          = (results s)(''itinerary'' \<mapsto> v1, ''experiences'' \<mapsto> v2, ''recommendations'' \<mapsto> v3,
                        ''safety'' \<mapsto> v4)"
    if "planner_agent ep ui (trace s) = (Inr v1, tr1)
        \<and> experience_agent ep ui (tr1 @ [Assign ''itinerary'' v1]) = (Inr v2, tr2)
        \<and> recommendation_agent ep ui (tr2 @ [Assign ''experiences'' v2]) = (Inr v3, tr3)
        \<and> safety_agent ep ui (tr3 @ [Assign ''recommendations'' v3]) = (Inr v4, tr4)
        \<and> budget_agent ep ui (tr4 @ [Assign ''safety'' v4]) = (Inl e, tr5)"
    using that assms by (simp add: defs)
  have a6: "results (processing_block ep ui s) = results s'
      \<and> (\<forall>k v. Assign k v \<in> set (new_events s s') \<longrightarrow>
            results (processing_block ep ui s) k = Some v)"
    if "try_block ep ui s = (Some e, s')"
  proof -
    from that assms have r: "results (processing_block ep ui s) = results s'"
      by (simp add: processing_block_def handler_results)
    from that try_block_failure [of ep ui s e s'] show ?thesis
      by (simp add: r)
  qed
  have b1: "results (processing_crew ex model ui s)
          = [''error'' \<mapsto> ''Failed to generate plan: '' @ str_exn e']"
    if "j < 5 \<and> (\<forall>i<j. \<exists>out. ex i (crew_tasks model ui ! i) = Inr out)
        \<and> ex j (crew_tasks model ui ! j) = Inl e'"
    using that assms crew_failure_results [of s j ex model ui e'] by simp
  have b2: "results (processing_crew ex model ui s)
          = [''error'' \<mapsto> ''Failed to generate plan: '' @ str_exn e']"
    if "try_crew ex model ui s = (Some e', c')"
    using that assms by (simp add: processing_crew_def except_crew_def)
  have c1: "results (processing_block third_stage_raises sample_request fresh_session)
        = [''itinerary'' \<mapsto> ''Day 1: Louvre'', ''experiences'' \<mapsto> ''Seine cruise'']"
    by (simp add: defs planner_agent_def experience_agent_def recommendation_agent_def
        query_llama_def posts_def upt_conv_Cons third_stage_raises_def fresh_session_def)
  have c2: "results (processing_crew third_task_raises ''ollama/llama3.2:latest'' sample_request fresh_session)
        = [''error'' \<mapsto> ''Failed to generate plan: boom'']"
    by (simp add: processing_crew_def try_crew_def create_tasks_def create_agents_def except_crew_def
        third_task_raises_def fresh_session_def)
  from a1 a2 a3 a4 a5 a6 b1 b2 c1 c2 show ?thesis
    by blast
qed

theorem failure_policies_differ_witness:
  "processing fresh_session
   \<and> planner_agent third_stage_raises sample_request (trace fresh_session)
       = (Inr ''Day 1: Louvre'', [Post (planner_prompt sample_request)])
   \<and> experience_agent third_stage_raises sample_request
        ([Post (planner_prompt sample_request)] @ [Assign ''itinerary'' ''Day 1: Louvre''])
       = (Inr ''Seine cruise'',
          [Post (planner_prompt sample_request), Assign ''itinerary'' ''Day 1: Louvre'',
           Post (experience_prompt sample_request)])
   \<and> recommendation_agent third_stage_raises sample_request
        ([Post (planner_prompt sample_request), Assign ''itinerary'' ''Day 1: Louvre'',
          Post (experience_prompt sample_request)] @ [Assign ''experiences'' ''Seine cruise''])
       = (Inl (Raised ''boom''),
          [Post (planner_prompt sample_request), Assign ''itinerary'' ''Day 1: Louvre'',
           Post (experience_prompt sample_request), Assign ''experiences'' ''Seine cruise'',
           Post (recommendation_prompt sample_request)])
   \<and> results (processing_block third_stage_raises sample_request fresh_session)
       = (results fresh_session)(''itinerary'' \<mapsto> ''Day 1: Louvre'', ''experiences'' \<mapsto> ''Seine cruise'')
   \<and> third_task_raises 2 (crew_tasks ''ollama/llama3.2:latest'' sample_request ! 2) = Inl (Raised ''boom'')
   \<and> dom (results (processing_crew third_task_raises ''ollama/llama3.2:latest'' sample_request fresh_session))
       = {''error''}"
proof -
  have p: "processing fresh_session"
    by (simp add: fresh_session_def)
  have a: "planner_agent third_stage_raises sample_request (trace fresh_session)
       = (Inr ''Day 1: Louvre'', [Post (planner_prompt sample_request)])"
    by (simp add: planner_agent_def query_llama_def posts_def upt_conv_Cons third_stage_raises_def
        fresh_session_def)
  have b: "experience_agent third_stage_raises sample_request
        ([Post (planner_prompt sample_request)] @ [Assign ''itinerary'' ''Day 1: Louvre''])
       = (Inr ''Seine cruise'',
          [Post (planner_prompt sample_request), Assign ''itinerary'' ''Day 1: Louvre'',
           Post (experience_prompt sample_request)])"
    by (simp add: experience_agent_def query_llama_def posts_def upt_conv_Cons third_stage_raises_def)
  have c: "recommendation_agent third_stage_raises sample_request
        ([Post (planner_prompt sample_request), Assign ''itinerary'' ''Day 1: Louvre'',
          Post (experience_prompt sample_request)] @ [Assign ''experiences'' ''Seine cruise''])
       = (Inl (Raised ''boom''),
          [Post (planner_prompt sample_request), Assign ''itinerary'' ''Day 1: Louvre'',
           Post (experience_prompt sample_request), Assign ''experiences'' ''Seine cruise'',
           Post (recommendation_prompt sample_request)])"
    by (simp add: recommendation_agent_def query_llama_def posts_def upt_conv_Cons third_stage_raises_def)
  have k: "third_task_raises 2 (crew_tasks ''ollama/llama3.2:latest'' sample_request ! 2) = Inl (Raised ''boom'')"
    by (simp add: third_task_raises_def)
  have k': "\<forall>i<2. \<exists>out. third_task_raises i (crew_tasks ''ollama/llama3.2:latest'' sample_request ! i) = Inr out"
    by (simp add: third_task_raises_def)
  have two: "(2::nat) < 5" by simp
  show ?thesis
    using p a b c k k' two
      failure_policies_differ [OF p, where ep = third_stage_raises and ui = sample_request
        and e = "Raised ''boom''" and ?v1.0 = "''Day 1: Louvre''" and ?v2.0 = "''Seine cruise''"
        and ?tr1.0 = "[Post (planner_prompt sample_request)]"
        and ?tr2.0 = "[Post (planner_prompt sample_request), Assign ''itinerary'' ''Day 1: Louvre'',
           Post (experience_prompt sample_request)]"
        and ?tr3.0 = "[Post (planner_prompt sample_request), Assign ''itinerary'' ''Day 1: Louvre'',
           Post (experience_prompt sample_request), Assign ''experiences'' ''Seine cruise'',
           Post (recommendation_prompt sample_request)]"
        and j = 2 and ex = third_task_raises and model = "''ollama/llama3.2:latest''"
        and e' = "Raised ''boom''"]
    by simp
qed

text \<open>
  C7, as stated, fails: with an empty destination the prompt is built, no error is
  raised, and the request is posted.
\<close>

theorem empty_destination_counterexample:
  "destination (sample_request\<lparr>destination := []\<rparr>) = []
   \<and> planner_agent always_answers (sample_request\<lparr>destination := []\<rparr>) []
       = (Inr ''Total: 100\<newline># Packing List\<newline>- socks'',
          [Post (planner_prompt (sample_request\<lparr>destination := []\<rparr>))])"
  by (simp add: planner_agent_def query_llama_def posts_def upt_conv_Cons always_answers_def)

text \<open>
  C7, amended. For every stage, building the prompt from a request whose destination
  is empty does not fail: nothing validates the request, the prompt is rendered with
  the empty destination, and the first effect of the stage is the request that posts
  this prompt to the model endpoint. In travel\_crew the tasks are created all the same
  and the first one is handed to the crew.
\<close>

theorem empty_destination_is_sent:
  assumes "destination ui = []"
  shows "(\<exists>r T. planner_agent ep ui tr = (r, tr @ Post (planner_prompt ui) # T))
    \<and> (\<exists>r T. experience_agent ep ui tr = (r, tr @ Post (experience_prompt ui) # T))
    \<and> (\<exists>r T. recommendation_agent ep ui tr = (r, tr @ Post (recommendation_prompt ui) # T))
    \<and> (\<exists>r T. safety_agent ep ui tr = (r, tr @ Post (safety_prompt ui) # T))
    \<and> (\<exists>r T. budget_agent ep ui tr = (r, tr @ Post (budget_prompt ui) # T))
    \<and> (\<exists>out c T. try_crew ex model ui s = (out, c)
          \<and> trace c = trace s @ Execute (itinerary_description ui) # T)"
proof -
  have q: "\<exists>r T. query_llama ep p 3 tr = (r, tr @ Post p # T)" for p
  proof -
    from query_llama_segment [of 3 ep p tr] obtain T
      where T: "snd (query_llama ep p 3 tr) = tr @ T" "client_segment p T"
      by auto
    from T(2) obtain es where "T = Post p # es"
      by (cases T) (auto simp: client_segment_def)
    with T(1) have "query_llama ep p 3 tr = (fst (query_llama ep p 3 tr), tr @ Post p # es)"
      by (metis prod.collapse)
    then show ?thesis by blast
  qed
  have k: "\<exists>out c T. try_crew ex model ui s = (out, c)
          \<and> trace c = trace s @ Execute (itinerary_description ui) # T"
  proof -
    obtain t1 t2 t3 t4 t5 where ts: "create_tasks ui (create_agents model) = (t1, t2, t3, t4, t5)"
      by (metis prod_cases5)
    then have d: "description t1 = itinerary_description ui"
      by (auto simp: create_tasks_def create_agents_def)
    from kickoff_first [of ex t1 "[t2, t3, t4, t5]" 0 "trace s"] obtain T
      where T: "snd (kickoff ex [t1, t2, t3, t4, t5] 0 (trace s)) = trace s @ Execute (description t1) # T"
      by blast
    obtain r tr' where r: "kickoff ex [t1, t2, t3, t4, t5] 0 (trace s) = (r, tr')"
      by (cases "kickoff ex [t1, t2, t3, t4, t5] 0 (trace s)")
    with T d have tr': "tr' = trace s @ Execute (itinerary_description ui) # T"
      by simp
    show ?thesis
    proof (cases r)
      case (Inl e)
      with ts r tr' show ?thesis
        by (simp add: try_crew_def)
    next
      case (Inr outs)
      obtain budget packing
        where "extract_packing (raw_or (outs ! 4) ''No budget generated.'') = Inr (budget, packing)"
        using extract_packing_total by blast
      with Inr ts r tr' show ?thesis
        by (simp add: try_crew_def)
    qed
  qed
  from q k show ?thesis
    by (simp add: planner_agent_def experience_agent_def recommendation_agent_def
        safety_agent_def budget_agent_def)
qed

theorem empty_destination_is_sent_witness:
  "destination (sample_request\<lparr>destination := []\<rparr>) = []
   \<and> (\<exists>r T. safety_agent always_times_out (sample_request\<lparr>destination := []\<rparr>) []
         = (r, [] @ Post (safety_prompt (sample_request\<lparr>destination := []\<rparr>)) # T))"
proof -
  have d: "destination (sample_request\<lparr>destination := []\<rparr>) = []"
    by simp
  from empty_destination_is_sent [OF d, of always_times_out "[]"] d show ?thesis
    by blast
qed

text \<open>
  C8. In every run of the processing block whose \<open>try\<close> block ends without an
  exception, the effects are, in this order: the requests of the itinerary stage, the
  write of its result, then the same for the experiences, recommendations and safety
  stages, then the requests of the budget stage, the writes of the two parts of the
  budget stage's output, and only then the final status update. Each stage's requests
  carry that stage's prompt, and between them there are only the client's sleeps.
\<close>

theorem stage_order:
  assumes "processing s" and "try_block ep ui s = (None, s')"
  shows "processing_block ep ui s = s'
    \<and> (\<exists>T1 T2 T3 T4 T5 itinerary experiences recommendations safety budget_result budget packing.
        client_segment (planner_prompt ui) T1
      \<and> client_segment (experience_prompt ui) T2
      \<and> client_segment (recommendation_prompt ui) T3
      \<and> client_segment (safety_prompt ui) T4
      \<and> client_segment (budget_prompt ui) T5
      \<and> budget_agent ep ui
           (trace s @ T1 @ [Assign ''itinerary'' itinerary] @ T2 @ [Assign ''experiences'' experiences] @ T3
              @ [Assign ''recommendations'' recommendations] @ T4 @ [Assign ''safety'' safety])
         = (Inr budget_result,
            trace s @ T1 @ [Assign ''itinerary'' itinerary] @ T2 @ [Assign ''experiences'' experiences] @ T3
              @ [Assign ''recommendations'' recommendations] @ T4 @ [Assign ''safety'' safety] @ T5)
      \<and> budget_parts budget_result = Inr (budget, packing)
      \<and> trace s' =
          trace s @ T1 @ [Assign ''itinerary'' itinerary] @ T2 @ [Assign ''experiences'' experiences] @ T3
            @ [Assign ''recommendations'' recommendations] @ T4 @ [Assign ''safety'' safety] @ T5
            @ [Assign ''budget'' budget, Assign ''packing'' packing, StatusUpdate ''complete'', Rerun])"
proof -
  from assms have "processing_block ep ui s = s'"
    by (simp add: processing_block_def)
  moreover from try_block_success [OF assms(2)] have
    "\<exists>T1 T2 T3 T4 T5 itinerary experiences recommendations safety budget_result budget packing.
        client_segment (planner_prompt ui) T1
      \<and> client_segment (experience_prompt ui) T2
      \<and> client_segment (recommendation_prompt ui) T3
      \<and> client_segment (safety_prompt ui) T4
      \<and> client_segment (budget_prompt ui) T5
      \<and> budget_agent ep ui
           (trace s @ T1 @ [Assign ''itinerary'' itinerary] @ T2 @ [Assign ''experiences'' experiences] @ T3
              @ [Assign ''recommendations'' recommendations] @ T4 @ [Assign ''safety'' safety])
         = (Inr budget_result,
            trace s @ T1 @ [Assign ''itinerary'' itinerary] @ T2 @ [Assign ''experiences'' experiences] @ T3
              @ [Assign ''recommendations'' recommendations] @ T4 @ [Assign ''safety'' safety] @ T5)
      \<and> budget_parts budget_result = Inr (budget, packing)
      \<and> trace s' =
          trace s @ T1 @ [Assign ''itinerary'' itinerary] @ T2 @ [Assign ''experiences'' experiences] @ T3
            @ [Assign ''recommendations'' recommendations] @ T4 @ [Assign ''safety'' safety] @ T5
            @ [Assign ''budget'' budget, Assign ''packing'' packing, StatusUpdate ''complete'', Rerun]"
    by blast
  ultimately show ?thesis
    by (rule conjI)
qed

theorem stage_order_witness:
  "processing fresh_session
   \<and> fst (try_block always_answers sample_request fresh_session) = None
   \<and> processing_block always_answers sample_request fresh_session
       = snd (try_block always_answers sample_request fresh_session)
   \<and> trace (processing_block always_answers sample_request fresh_session) =
       [Post (planner_prompt sample_request),
        Assign ''itinerary'' ''Total: 100\<newline># Packing List\<newline>- socks'',
        Post (experience_prompt sample_request),
        Assign ''experiences'' ''Total: 100\<newline># Packing List\<newline>- socks'',
        Post (recommendation_prompt sample_request),
        Assign ''recommendations'' ''Total: 100\<newline># Packing List\<newline>- socks'',
        Post (safety_prompt sample_request),
        Assign ''safety'' ''Total: 100\<newline># Packing List\<newline>- socks'',
        Post (budget_prompt sample_request),
        Assign ''budget'' ''Total: 100\<newline>'',
        Assign ''packing'' ''# Packing List\<newline>- socks'',
        StatusUpdate ''complete'', Rerun]"
proof -
  have p: "processing fresh_session"
    by (simp add: fresh_session_def)
  have b: "budget_parts ''Total: 100\<newline># Packing List\<newline>- socks''
      = Inr (''Total: 100\<newline>'', ''# Packing List\<newline>- socks'')"
    by (simp add: budget_parts_def str_contains_def starts_with_def str_split.simps)
  have t: "try_block always_answers sample_request fresh_session =
      (None,
       \<lparr>results = [''itinerary'' \<mapsto> ''Total: 100\<newline># Packing List\<newline>- socks'',
                   ''experiences'' \<mapsto> ''Total: 100\<newline># Packing List\<newline>- socks'',
                   ''recommendations'' \<mapsto> ''Total: 100\<newline># Packing List\<newline>- socks'',
                   ''safety'' \<mapsto> ''Total: 100\<newline># Packing List\<newline>- socks'',
                   ''budget'' \<mapsto> ''Total: 100\<newline>'',
                   ''packing'' \<mapsto> ''# Packing List\<newline>- socks''],
        processing = False,
        trace =
          [Post (planner_prompt sample_request),
           Assign ''itinerary'' ''Total: 100\<newline># Packing List\<newline>- socks'',
           Post (experience_prompt sample_request),
           Assign ''experiences'' ''Total: 100\<newline># Packing List\<newline>- socks'',
           Post (recommendation_prompt sample_request),
           Assign ''recommendations'' ''Total: 100\<newline># Packing List\<newline>- socks'',
           Post (safety_prompt sample_request),
           Assign ''safety'' ''Total: 100\<newline># Packing List\<newline>- socks'',
           Post (budget_prompt sample_request),
           Assign ''budget'' ''Total: 100\<newline>'',
           Assign ''packing'' ''# Packing List\<newline>- socks'',
           StatusUpdate ''complete'', Rerun]\<rparr>)"
    by (simp add: try_block_def call_def assign_def emit_def b
        planner_agent_def experience_agent_def recommendation_agent_def safety_agent_def
        budget_agent_def query_llama_def posts_def upt_conv_Cons always_answers_def fresh_session_def)
  from stage_order [OF p t] p show ?thesis
    by (simp add: t)
qed

text \<open>
  In travel\_crew the task list handed to the crew is in the same order, and a sequential
  kickoff that ends without an exception has executed the five tasks in that order
  before the status update.
\<close>

lemma crew_task_order:
  assumes "try_crew ex model ui s = (None, s')"
  shows "trace s' = trace s @
    [Execute (itinerary_description ui), Execute (experience_description ui),
     Execute (recommendation_description ui), Execute (safety_description ui),
     Execute (budget_description ui), StatusUpdate ''complete'', Rerun]"
  using assms
  by (auto simp: try_crew_def create_tasks_def create_agents_def split: sum.splits prod.splits)

section \<open>The weather tool\<close>

text \<open>
  C9. For every city, when the environment has no \<open>OPENWEATHERMAP_API_KEY\<close>, the
  lookup returns a string that says so and names the variable; it raises nothing and
  sends no request.
\<close>

theorem weather_key_absent:
  assumes "environ ''OPENWEATHERMAP_API_KEY'' = None"
  shows "weather_run environ api city tr =
      (Inr ''Error: OpenWeatherMap API key not found in environment variables. Please set OPENWEATHERMAP_API_KEY in your .env file.'', tr)
    \<and> str_contains ''OPENWEATHERMAP_API_KEY''
        ''Error: OpenWeatherMap API key not found in environment variables. Please set OPENWEATHERMAP_API_KEY in your .env file.''"
proof -
  have "str_find ''OPENWEATHERMAP_API_KEY''
      ''Error: OpenWeatherMap API key not found in environment variables. Please set OPENWEATHERMAP_API_KEY in your .env file.''
    = Some 77"
    by (simp add: starts_with_def)
  with assms show ?thesis
    by (simp add: weather_run_def str_contains_def)
qed

theorem weather_key_absent_witness:
  "Map.empty ''OPENWEATHERMAP_API_KEY'' = (None :: string option)
   \<and> weather_run Map.empty (\<lambda>url. Report ''12.5'' ''light rain'') ''London'' [] =
      (Inr ''Error: OpenWeatherMap API key not found in environment variables. Please set OPENWEATHERMAP_API_KEY in your .env file.'', [])"
  using weather_key_absent [of Map.empty "\<lambda>url. Report ''12.5'' ''light rain''" "''London''" "[]"]
  by simp

end
